theory Spec2Isabelle
  imports Complex_Main "HOL-Library.AList"
begin

section \<open>The box collection optimizer (box\_collection\_optimizer.py)\<close>

text \<open>
  A shallow embedding of the class \<open>BoxCollectionOptimizer\<close>. Python floats are modelled as
  exact reals, a missing value (NaN in the data frame) as \<open>None\<close>, Python dictionaries as
  association lists in insertion order, and every exception the code can raise as a value of
  type \<open>error\<close>. The wall clock (\<open>datetime.now(self.timezone)\<close>) is a parameter \<open>now\<close> of
  every operation that reads it; one operation reads it once.
\<close>

subsection \<open>Data model\<close>

datatype error = AttributeError | TypeError | ValueError

text \<open>
  One row of the data frame \<open>self.df\<close>. The week columns are \<open>semaine_1 .. semaine_N\<close>;
  \<open>semaines r\<close> holds the row's cells of these columns in order.
\<close>

record box_row =
  n_boite :: int
  adresse :: string
  commune :: string
  cp :: string
  conteneur :: string
  volume_moyen :: "real option"
  semaines :: "real option list"

text \<open>
  A \<open>datetime\<close> object: the calendar fields and \<open>tzinfo\<close>, of which only the UTC offset
  (in minutes) is kept; \<open>None\<close> is a naive datetime.
\<close>

record datetime =
  year :: nat
  month :: nat
  day :: nat
  hour :: nat
  minute :: nat
  second :: nat
  microsecond :: nat
  tzinfo :: "int option"

text \<open>The dictionary appended to a box's visit history by \<open>mark_visit\<close>.\<close>

record visit_record =
  date :: string
  fill_level :: "real option"
  vr_expected_fill :: real

text \<open>The score bundle stored per box in \<open>self._score_cache\<close>.\<close>

record score_snapshot =
  fill_score :: real
  urgency_score :: real
  equity_score :: real
  expected_fill :: real
  profitability_score :: real
  days_since_last_visit :: "int option"

text \<open>
  The attributes of the optimizer object. \<open>week_columns\<close> is the number of week columns;
  \<open>timezone\<close> is the UTC offset, in minutes, that \<open>replace(tzinfo=self.timezone)\<close> attaches.
  An entry of \<open>last_visit\<close> may hold \<open>None\<close>, which is what \<open>add_box\<close> stores.
\<close>

record optimizer =
  df :: "box_row list"
  week_columns :: nat
  last_visit :: "(int \<times> datetime option) list"
  visit_history :: "(int \<times> visit_record list) list"
  score_cache :: "(int \<times> score_snapshot) list"
  cache_valid :: bool
  timezone :: int

subsection \<open>Data frame access\<close>

text \<open>\<open>self.df[self.df['n_boite'] == box_id]\<close>\<close>

definition box_data :: "optimizer \<Rightarrow> int \<Rightarrow> box_row list" where
  "box_data s box_id = filter (\<lambda>r. n_boite r = box_id) (df s)"

text \<open>\<open>box_id in self.df['n_boite'].values\<close>\<close>

definition box_exists :: "optimizer \<Rightarrow> int \<Rightarrow> bool" where
  "box_exists s box_id = (box_id \<in> set (map n_boite (df s)))"

text \<open>\<open>f'semaine_{i}' in self.df.columns\<close>\<close>

definition week_col_exists :: "optimizer \<Rightarrow> int \<Rightarrow> bool" where
  "week_col_exists s i = (1 \<le> i \<and> i \<le> int (week_columns s))"

text \<open>The cell of column \<open>semaine_i\<close> in a row; a cell the row does not hold reads as missing.\<close>

definition week_cell :: "box_row \<Rightarrow> int \<Rightarrow> real option" where
  "week_cell r i =
     (if 1 \<le> i \<and> i \<le> int (length (semaines r)) then semaines r ! nat (i - 1) else None)"

subsection \<open>Current week\<close>

text \<open>
  The loop \<open>for i in range(n, 0, -1): if found(i): return i\<close> followed by \<open>return 1\<close>.
\<close>

fun last_week_where :: "(int \<Rightarrow> bool) \<Rightarrow> nat \<Rightarrow> int" where
  "last_week_where found 0 = 1"
| "last_week_where found (Suc n) =
     (if found (int (Suc n)) then int (Suc n) else last_week_where found n)"

definition get_current_week :: "optimizer \<Rightarrow> int" where
  "get_current_week s =
     last_week_where
       (\<lambda>i. week_col_exists s i \<and> \<not> list_all (\<lambda>r. week_cell r i = None) (df s))
       (week_columns s)"

definition get_current_week_for_box :: "optimizer \<Rightarrow> int \<Rightarrow> int" where
  "get_current_week_for_box s box_id =
     (case box_data s box_id of
        [] \<Rightarrow> 1
      | r # _ \<Rightarrow>
          last_week_where (\<lambda>i. week_col_exists s i \<and> week_cell r i \<noteq> None) (week_columns s))"

subsection \<open>Fill score and expected fill\<close>

text \<open>\<open>np.mean\<close> of a non-empty list.\<close>

definition mean :: "real list \<Rightarrow> real" where
  "mean ys = sum_list ys / real (length ys)"

text \<open>
  \<open>np.polyfit(range(len(ys)), ys, 1)[0]\<close>: the slope of the least-squares line through the
  points \<open>(0, ys\<^sub>0), (1, ys\<^sub>1), ...\<close>, in closed form.
\<close>

definition polyfit_slope :: "real list \<Rightarrow> real" where
  "polyfit_slope ys =
     (let n = real (length ys);
          xs = map real [0..<length ys];
          sx = sum_list xs;
          sy = sum_list ys;
          sxy = sum_list (map (\<lambda>(x, y). x * y) (zip xs ys));
          sxx = sum_list (map (\<lambda>x. x * x) xs)
      in (n * sxy - sx * sy) / (n * sxx - sx * sx))"

definition calculate_fill_score :: "optimizer \<Rightarrow> int \<Rightarrow> int option \<Rightarrow> real" where
  "calculate_fill_score s box_id current_week_arg =
     (case box_data s box_id of
        [] \<Rightarrow> 0
      | r # _ \<Rightarrow>
          (let current_week =
                 (case current_week_arg of
                    None \<Rightarrow> get_current_week_for_box s box_id
                  | Some w \<Rightarrow> w);
               recent_weeks = min 4 current_week;
               recent_scores =
                 List.map_filter
                   (\<lambda>i. let week_num = current_week - recent_weeks + 1 + int i
                        in if week_col_exists s week_num then week_cell r week_num else None)
                   [0..<nat recent_weeks]
           in if recent_scores = [] then 0
              else
                (let avg_score = mean recent_scores;
                     trend_bonus =
                       (if length recent_scores \<ge> 2
                        then min (polyfit_slope recent_scores * 0.5) 2.0
                        else 0)
                 in max 0 (avg_score + trend_bonus))))"

definition calculate_expected_fill :: "optimizer \<Rightarrow> int \<Rightarrow> real" where
  "calculate_expected_fill s box_id =
     (let fill_score = calculate_fill_score s box_id None;
          avg_fill =
            (case box_data s box_id of
               [] \<Rightarrow> 0
             | r # _ \<Rightarrow> (case volume_moyen r of None \<Rightarrow> 0 | Some a \<Rightarrow> a));
          expected_fill = fill_score * 0.7 + avg_fill * 0.3
      in min expected_fill 10.0)"

subsection \<open>Days since the last visit\<close>

text \<open>
  Date arithmetic as Python's \<open>datetime\<close> does it: the proleptic Gregorian ordinal of a date
  (\<open>_ymd2ord\<close>), and the subtraction of two datetimes, which raises \<open>TypeError\<close> when exactly
  one of them is naive. A \<open>timedelta\<close> is its total number of microseconds.
\<close>

definition is_leap :: "nat \<Rightarrow> bool" where
  "is_leap y = (y mod 4 = 0 \<and> (y mod 100 \<noteq> 0 \<or> y mod 400 = 0))"

definition days_before_year :: "nat \<Rightarrow> int" where
  "days_before_year y =
     (let p = int y - 1 in p * 365 + p div 4 - p div 100 + p div 400)"

definition days_before_month :: "nat \<Rightarrow> nat \<Rightarrow> int" where
  "days_before_month y m =
     int ([0, 0, 31, 59, 90, 120, 151, 181, 212, 243, 273, 304, 334] ! (min m 12))
     + (if m > 2 \<and> is_leap y then 1 else 0)"

definition toordinal :: "datetime \<Rightarrow> int" where
  "toordinal d = days_before_year (year d) + days_before_month (year d) (month d) + int (day d)"

definition local_micros :: "datetime \<Rightarrow> int" where
  "local_micros d =
     ((toordinal d * 24 + int (hour d)) * 60 + int (minute d)) * 60000000
     + int (second d) * 1000000 + int (microsecond d)"

definition dt_sub :: "datetime \<Rightarrow> datetime \<Rightarrow> error + int" where
  "dt_sub a b =
     (case (tzinfo a, tzinfo b) of
        (None, None) \<Rightarrow> Inr (local_micros a - local_micros b)
      | (Some oa, Some ob) \<Rightarrow>
          Inr ((local_micros a - oa * 60000000) - (local_micros b - ob * 60000000))
      | _ \<Rightarrow> Inl TypeError)"

text \<open>\<open>timedelta.days\<close>: the floor of the difference in days.\<close>

definition timedelta_days :: "int \<Rightarrow> int" where
  "timedelta_days us = us div 86400000000"

definition calculate_days_since_last_visit ::
  "optimizer \<Rightarrow> datetime \<Rightarrow> int \<Rightarrow> error + int option" where
  "calculate_days_since_last_visit s now box_id =
     (case map_of (last_visit s) box_id of
        None \<Rightarrow> Inr None
      | Some None \<Rightarrow> Inl AttributeError
      | Some (Some lv) \<Rightarrow>
          (let lv_aware = (if tzinfo lv \<noteq> None then lv else lv\<lparr>tzinfo := Some (timezone s)\<rparr>)
           in case dt_sub now lv_aware of
                Inl e \<Rightarrow> Inl e
              | Inr us \<Rightarrow> Inr (Some (timedelta_days us))))"

subsection \<open>Urgency, equity and profitability\<close>

definition calculate_urgency_score :: "optimizer \<Rightarrow> datetime \<Rightarrow> int \<Rightarrow> error + real" where
  "calculate_urgency_score s now box_id =
     (case calculate_days_since_last_visit s now box_id of
        Inl e \<Rightarrow> Inl e
      | Inr None \<Rightarrow>
          (case box_data s box_id of
             [] \<Rightarrow> Inr 3.0
           | r # _ \<Rightarrow>
               (case volume_moyen r of
                  None \<Rightarrow> Inr 3.0
                | Some avg_fill \<Rightarrow>
                    if avg_fill > 0 then Inr (min (avg_fill * 0.8) 8.0) else Inr 3.0))
      | Inr (Some days_since) \<Rightarrow>
          (let urgency = 10 / (1 + exp (- 0.5 * (real_of_int days_since - 7)));
               urgency =
                 (if days_since \<le> 1 then max urgency 1.0
                  else if days_since \<le> 3 then max urgency 2.0
                  else urgency)
           in Inr (min urgency 10.0)))"

definition calculate_equity_score :: "optimizer \<Rightarrow> datetime \<Rightarrow> int \<Rightarrow> error + real" where
  "calculate_equity_score s now box_id =
     (case calculate_days_since_last_visit s now box_id of
        Inl e \<Rightarrow> Inl e
      | Inr None \<Rightarrow> Inr 8.0
      | Inr (Some days_since) \<Rightarrow>
          (if days_since \<le> 0 then Inr 0.0
           else if days_since \<le> 7 then Inr (real_of_int days_since * 0.5)
           else if days_since \<le> 30 then Inr (3.5 + (real_of_int days_since - 7) * 0.2)
           else Inr (min (8.0 + (real_of_int days_since - 30) * 0.1) 15.0)))"

text \<open>
  The body of \<open>calculate_profitability_score\<close> after the cache test: the score computed
  from the catalog and the ledger.
\<close>

definition profitability_uncached :: "optimizer \<Rightarrow> datetime \<Rightarrow> int \<Rightarrow> error + real" where
  "profitability_uncached s now box_id =
     (let expected_fill = calculate_expected_fill s box_id
      in case calculate_urgency_score s now box_id of
           Inl e \<Rightarrow> Inl e
         | Inr urgency \<Rightarrow>
             (case calculate_equity_score s now box_id of
                Inl e \<Rightarrow> Inl e
              | Inr equity \<Rightarrow>
                  (let normalized_fill = expected_fill / 10.0;
                       normalized_urgency = urgency / 10.0;
                       normalized_equity = equity / 15.0;
                       base_score = normalized_fill * 100;
                       urgency_multiplier = 1.0 + normalized_urgency * 0.5;
                       equity_bonus = normalized_equity * 30;
                       profitability = base_score * urgency_multiplier + equity_bonus
                   in Inr (min profitability 130.0))))"

definition calculate_profitability_score :: "optimizer \<Rightarrow> datetime \<Rightarrow> int \<Rightarrow> error + real" where
  "calculate_profitability_score s now box_id =
     (case (if cache_valid s then map_of (score_cache s) box_id else None) of
        Some snap \<Rightarrow> Inr (profitability_score snap)
      | None \<Rightarrow> profitability_uncached s now box_id)"

subsection \<open>Strings: decimal numbers and ISO timestamps\<close>

definition digit_char :: "nat \<Rightarrow> char" where
  "digit_char n = char_of (48 + n)"

text \<open>\<open>str(n)\<close> for a non-negative integer.\<close>

fun show_nat :: "nat \<Rightarrow> string" where
  "show_nat n = (if n < 10 then [digit_char n] else show_nat (n div 10) @ [digit_char (n mod 10)])"

declare show_nat.simps [simp del]

text \<open>\<open>str(k)\<close> for an integer.\<close>

definition py_str :: "int \<Rightarrow> string" where
  "py_str k = (if k < 0 then CHR ''-'' # show_nat (nat (- k)) else show_nat (nat k))"

text \<open>The format \<open>%0wd\<close> for a non-negative integer.\<close>

definition zpad :: "nat \<Rightarrow> nat \<Rightarrow> string" where
  "zpad w n = replicate (w - length (show_nat n)) CHR ''0'' @ show_nat n"

text \<open>
  \<open>datetime.isoformat()\<close>: \<open>YYYY-MM-DDTHH:MM:SS\<close>, then \<open>.ffffff\<close> when the microseconds are
  not zero, then the UTC offset \<open>+HH:MM\<close> or \<open>-HH:MM\<close> of an aware datetime.
\<close>

definition format_offset :: "int option \<Rightarrow> string" where
  "format_offset off =
     (case off of
        None \<Rightarrow> []
      | Some m \<Rightarrow>
          (if m < 0 then ''-'' else ''+'')
          @ zpad 2 (nat \<bar>m\<bar> div 60) @ '':'' @ zpad 2 (nat \<bar>m\<bar> mod 60))"

definition isoformat :: "datetime \<Rightarrow> string" where
  "isoformat d =
     zpad 4 (year d) @ ''-'' @ zpad 2 (month d) @ ''-'' @ zpad 2 (day d) @ ''T''
     @ zpad 2 (hour d) @ '':'' @ zpad 2 (minute d) @ '':'' @ zpad 2 (second d)
     @ (if microsecond d \<noteq> 0 then ''.'' @ zpad 6 (microsecond d) else [])
     @ format_offset (tzinfo d)"

text \<open>
  Reading numbers back. \<open>py_int\<close> is \<open>int(s)\<close> on an optional sign followed by decimal
  digits, the strings \<open>str\<close> writes; any other string is reported as \<open>ValueError\<close>.
\<close>

definition digit_val :: "char \<Rightarrow> nat option" where
  "digit_val c = (let n = (of_char c :: nat) in if 48 \<le> n \<and> n \<le> 57 then Some (n - 48) else None)"

fun parse_digits :: "string \<Rightarrow> nat \<Rightarrow> nat option" where
  "parse_digits [] acc = Some acc"
| "parse_digits (c # cs) acc =
     (case digit_val c of None \<Rightarrow> None | Some d \<Rightarrow> parse_digits cs (10 * acc + d))"

definition parse_nat :: "string \<Rightarrow> nat option" where
  "parse_nat s = (if s = [] then None else parse_digits s 0)"

definition py_int :: "string \<Rightarrow> error + int" where
  "py_int s =
     (case s of
        [] \<Rightarrow> Inl ValueError
      | c # cs \<Rightarrow>
          if c = CHR ''-'' then
            (case parse_nat cs of None \<Rightarrow> Inl ValueError | Some n \<Rightarrow> Inr (- int n))
          else if c = CHR ''+'' then
            (case parse_nat cs of None \<Rightarrow> Inl ValueError | Some n \<Rightarrow> Inr (int n))
          else
            (case parse_nat s of None \<Rightarrow> Inl ValueError | Some n \<Rightarrow> Inr (int n)))"

text \<open>Reading a number of exactly \<open>w\<close> digits, and one expected character.\<close>

definition take_num :: "nat \<Rightarrow> string \<Rightarrow> (nat \<times> string) option" where
  "take_num w s =
     (if length s < w then None
      else (case parse_nat (take w s) of None \<Rightarrow> None | Some n \<Rightarrow> Some (n, drop w s)))"

definition expect :: "char \<Rightarrow> string \<Rightarrow> string option" where
  "expect c s = (case s of [] \<Rightarrow> None | x # xs \<Rightarrow> if x = c then Some xs else None)"

subsection \<open>Reading an ISO timestamp\<close>

text \<open>
  The field ranges that every \<open>datetime\<close> object satisfies and that its constructor
  checks; UTC offsets lie strictly between -24 and +24 hours.
\<close>

definition days_in_month :: "nat \<Rightarrow> nat \<Rightarrow> nat" where
  "days_in_month y m =
     (if m = 2 \<and> is_leap y then 29
      else [0, 31, 28, 31, 30, 31, 30, 31, 31, 30, 31, 30, 31] ! (min m 12))"

definition valid_datetime :: "datetime \<Rightarrow> bool" where
  "valid_datetime d =
     (1 \<le> year d \<and> year d \<le> 9999 \<and> 1 \<le> month d \<and> month d \<le> 12
      \<and> 1 \<le> day d \<and> day d \<le> days_in_month (year d) (month d)
      \<and> hour d < 24 \<and> minute d < 60 \<and> second d < 60 \<and> microsecond d < 1000000
      \<and> (case tzinfo d of None \<Rightarrow> True | Some m \<Rightarrow> \<bar>m\<bar> < 1440))"

text \<open>
  \<open>datetime.fromisoformat\<close> on the format that \<open>isoformat\<close> writes:
  \<open>YYYY-MM-DDTHH:MM:SS\<close>, an optional \<open>.ffffff\<close>, an optional offset \<open>+HH:MM\<close> or
  \<open>-HH:MM\<close>. A string of another shape, or fields out of range, give \<open>ValueError\<close>.
\<close>

definition parse_offset :: "string \<Rightarrow> int option option" where
  "parse_offset s =
     (case s of
        [] \<Rightarrow> Some None
      | c # cs \<Rightarrow>
          if c = CHR ''+'' \<or> c = CHR ''-'' then
            (case take_num 2 cs of
               None \<Rightarrow> None
             | Some (hh, r1) \<Rightarrow>
            (case expect CHR '':'' r1 of
               None \<Rightarrow> None
             | Some r2 \<Rightarrow>
            (case take_num 2 r2 of
               None \<Rightarrow> None
             | Some (mm, r3) \<Rightarrow>
                 if r3 = [] then
                   Some (Some ((if c = CHR ''-'' then - 1 else 1) * int (hh * 60 + mm)))
                 else None)))
          else None)"

definition parse_fraction :: "string \<Rightarrow> (nat \<times> string) option" where
  "parse_fraction s =
     (case s of
        [] \<Rightarrow> Some (0, [])
      | c # cs \<Rightarrow> if c = CHR ''.'' then take_num 6 cs else Some (0, s))"

definition fromisoformat :: "string \<Rightarrow> error + datetime" where
  "fromisoformat s =
     (case take_num 4 s of None \<Rightarrow> Inl ValueError | Some (y, r1) \<Rightarrow>
     (case expect CHR ''-'' r1 of None \<Rightarrow> Inl ValueError | Some r2 \<Rightarrow>
     (case take_num 2 r2 of None \<Rightarrow> Inl ValueError | Some (m, r3) \<Rightarrow>
     (case expect CHR ''-'' r3 of None \<Rightarrow> Inl ValueError | Some r4 \<Rightarrow>
     (case take_num 2 r4 of None \<Rightarrow> Inl ValueError | Some (dd, r5) \<Rightarrow>
     (case expect CHR ''T'' r5 of None \<Rightarrow> Inl ValueError | Some r6 \<Rightarrow>
     (case take_num 2 r6 of None \<Rightarrow> Inl ValueError | Some (hh, r7) \<Rightarrow>
     (case expect CHR '':'' r7 of None \<Rightarrow> Inl ValueError | Some r8 \<Rightarrow>
     (case take_num 2 r8 of None \<Rightarrow> Inl ValueError | Some (mi, r9) \<Rightarrow>
     (case expect CHR '':'' r9 of None \<Rightarrow> Inl ValueError | Some r10 \<Rightarrow>
     (case take_num 2 r10 of None \<Rightarrow> Inl ValueError | Some (ss, r11) \<Rightarrow>
     (case parse_fraction r11 of None \<Rightarrow> Inl ValueError | Some (us, r12) \<Rightarrow>
     (case parse_offset r12 of None \<Rightarrow> Inl ValueError | Some tz \<Rightarrow>
        (let d = \<lparr>year = y, month = m, day = dd, hour = hh, minute = mi, second = ss,
                  microsecond = us, tzinfo = tz\<rparr>
         in if valid_datetime d then Inr d else Inl ValueError))))))))))))))"

subsection \<open>The score cache\<close>

definition invalidate_cache :: "optimizer \<Rightarrow> optimizer" where
  "invalidate_cache s = s\<lparr>cache_valid := False, score_cache := []\<rparr>"

text \<open>
  The block shared by \<open>_precompute_all_scores\<close> and \<open>_recalculate_box_scores\<close>: the six
  components of a box's bundle, computed in the source's order with the given current week.
\<close>

definition compute_snapshot ::
  "optimizer \<Rightarrow> datetime \<Rightarrow> int \<Rightarrow> int \<Rightarrow> error + score_snapshot" where
  "compute_snapshot s now box_id current_week =
     (let fill = calculate_fill_score s box_id (Some current_week)
      in case calculate_urgency_score s now box_id of
           Inl e \<Rightarrow> Inl e
         | Inr urgency \<Rightarrow>
        (case calculate_equity_score s now box_id of
           Inl e \<Rightarrow> Inl e
         | Inr equity \<Rightarrow>
        (let expected = calculate_expected_fill s box_id
         in case calculate_profitability_score s now box_id of
           Inl e \<Rightarrow> Inl e
         | Inr profitability \<Rightarrow>
        (case calculate_days_since_last_visit s now box_id of
           Inl e \<Rightarrow> Inl e
         | Inr days \<Rightarrow>
             Inr \<lparr>fill_score = fill, urgency_score = urgency, equity_score = equity,
                  expected_fill = expected, profitability_score = profitability,
                  days_since_last_visit = days\<rparr>))))"

text \<open>The loop of \<open>_precompute_all_scores\<close> over the rows of the data frame.\<close>

fun precompute_rows ::
  "optimizer \<Rightarrow> datetime \<Rightarrow> int \<Rightarrow> box_row list \<Rightarrow> error + optimizer" where
  "precompute_rows s now current_week [] = Inr s"
| "precompute_rows s now current_week (box # rest) =
     (let box_id = n_boite box
      in case compute_snapshot s now box_id current_week of
           Inl e \<Rightarrow> Inl e
         | Inr snap \<Rightarrow>
             precompute_rows (s\<lparr>score_cache := AList.update box_id snap (score_cache s)\<rparr>)
               now current_week rest)"

definition precompute_all_scores :: "optimizer \<Rightarrow> datetime \<Rightarrow> error + optimizer" where
  "precompute_all_scores s now =
     (let current_week = get_current_week s
      in case precompute_rows s now current_week (df s) of
           Inl e \<Rightarrow> Inl e
         | Inr s' \<Rightarrow> Inr (s'\<lparr>cache_valid := True\<rparr>))"

definition recalculate_box_scores :: "optimizer \<Rightarrow> datetime \<Rightarrow> int \<Rightarrow> error + optimizer" where
  "recalculate_box_scores s now box_id =
     (let current_week = get_current_week_for_box s box_id
      in case compute_snapshot s now box_id current_week of
           Inl e \<Rightarrow> Inl e
         | Inr snap \<Rightarrow> Inr (s\<lparr>score_cache := AList.update box_id snap (score_cache s)\<rparr>))"

subsection \<open>Construction\<close>

text \<open>
  The UTC offset of the tzinfo object \<open>pytz.timezone('Europe/Zurich')\<close> itself (local mean
  time, +00:34), which is what \<open>replace(tzinfo=...)\<close> attaches.
\<close>

definition europe_zurich :: int where
  "europe_zurich = 34"

text \<open>
  \<open>__init__\<close>, given the parsed CSV file: its number of week columns and its rows. The
  ledger starts empty and the cache is filled by the pre-computation pass.
\<close>

definition init :: "nat \<Rightarrow> box_row list \<Rightarrow> datetime \<Rightarrow> error + optimizer" where
  "init n_weeks rows now =
     (if n_weeks = 0 then Inl ValueError
      else precompute_all_scores
             \<lparr>df = rows, week_columns = n_weeks, last_visit = [], visit_history = [],
              score_cache = [], cache_valid = False, timezone = europe_zurich\<rparr> now)"

subsection \<open>Marking a visit\<close>

text \<open>
  \<open>mark_visit\<close>. The row appended to the file \<open>visits_log.csv\<close> is not part of the object's
  state and is left out.
\<close>

definition mark_visit ::
  "optimizer \<Rightarrow> datetime \<Rightarrow> int \<Rightarrow> real option \<Rightarrow> error + optimizer" where
  "mark_visit s now box_id fill =
     (let expected = calculate_expected_fill s box_id;
          s1 = s\<lparr>last_visit := AList.update box_id (Some now) (last_visit s)\<rparr>;
          s2 = (if map_of (visit_history s1) box_id = None
                then s1\<lparr>visit_history := AList.update box_id [] (visit_history s1)\<rparr>
                else s1);
          visit = \<lparr>date = isoformat now, fill_level = fill, vr_expected_fill = expected\<rparr>;
          s3 = s2\<lparr>visit_history :=
                    AList.update box_id
                      ((case map_of (visit_history s2) box_id of None \<Rightarrow> [] | Some h \<Rightarrow> h)
                       @ [visit])
                      (visit_history s2)\<rparr>;
          s4 = invalidate_cache s3
      in recalculate_box_scores s4 now box_id)"

subsection \<open>Box details\<close>

text \<open>\<open>round(x, 1)\<close>: to one decimal, a tie going to the even neighbour.\<close>

definition round1 :: "real \<Rightarrow> real" where
  "round1 x =
     (let y = x * 10; f = \<lfloor>y\<rfloor>; r = y - of_int f
      in (if r < 1 / 2 then of_int f
          else if r > 1 / 2 then of_int (f + 1)
          else if even f then of_int f else of_int (f + 1)) / 10)"

record box_details =
  bd_box_id :: int
  bd_address :: string
  bd_commune :: string
  bd_postal_code :: string
  bd_container_type :: string
  bd_average_fill :: real
  bd_current_score :: real
  bd_expected_fill :: real
  bd_days_since_last_visit :: "int option"
  bd_recent_history :: "(string \<times> real) list"
  bd_visit_history :: "visit_record list"

text \<open>\<open>get_box_details\<close>; the result \<open>None\<close> is the not-found result.\<close>

definition get_box_details :: "optimizer \<Rightarrow> datetime \<Rightarrow> int \<Rightarrow> error + box_details option" where
  "get_box_details s now box_id =
     (case box_data s box_id of
        [] \<Rightarrow> Inr None
      | box # _ \<Rightarrow>
          (let recent_history =
                 List.map_filter
                   (\<lambda>i. let w = int (week_columns s) - int i
                        in if week_col_exists s w
                           then (case week_cell box w of
                                   None \<Rightarrow> None
                                 | Some score \<Rightarrow> Some (''Semaine '' @ py_str w, score))
                           else None)
                   [0..<8]
           in case calculate_profitability_score s now box_id of
                Inl e \<Rightarrow> Inl e
              | Inr score \<Rightarrow>
             (case calculate_days_since_last_visit s now box_id of
                Inl e \<Rightarrow> Inl e
              | Inr days \<Rightarrow>
                  Inr (Some
                    \<lparr>bd_box_id = box_id,
                     bd_address = adresse box,
                     bd_commune = commune box,
                     bd_postal_code = cp box,
                     bd_container_type = conteneur box,
                     bd_average_fill =
                       (case volume_moyen box of None \<Rightarrow> 0 | Some a \<Rightarrow> round1 a),
                     bd_current_score = round1 score,
                     bd_expected_fill = round1 (calculate_expected_fill s box_id),
                     bd_days_since_last_visit = days,
                     bd_recent_history = recent_history,
                     bd_visit_history =
                       (case map_of (visit_history s) box_id of None \<Rightarrow> [] | Some h \<Rightarrow> h)\<rparr>))))"

subsection \<open>Catalog mutations\<close>

text \<open>
  The dictionary passed to \<open>add_box\<close>: a field is \<open>None\<close> when its key is absent.
\<close>

record new_box =
  nb_n_boite :: "int option"
  nb_adresse :: "string option"
  nb_commune :: "string option"
  nb_cp :: "string option"
  nb_conteneur :: "string option"
  nb_volume_moyen :: "real option"

definition add_box :: "optimizer \<Rightarrow> new_box \<Rightarrow> bool \<times> optimizer" where
  "add_box s b =
     (case (nb_n_boite b, nb_adresse b, nb_commune b, nb_cp b, nb_conteneur b, nb_volume_moyen b) of
        (Some n, Some a, Some c, Some p, Some t, Some v) \<Rightarrow>
          (if box_exists s n then (False, s)
           else
             (let new_row = \<lparr>n_boite = n, adresse = a, commune = c, cp = p, conteneur = t,
                             volume_moyen = Some v,
                             semaines = replicate (week_columns s) None\<rparr>;
                  s1 = s\<lparr>df := df s @ [new_row]\<rparr>;
                  box_id = n;
                  s2 = (if map_of (last_visit s1) box_id = None
                        then s1\<lparr>last_visit := AList.update box_id None (last_visit s1)\<rparr>
                        else s1);
                  s3 = (if map_of (visit_history s2) box_id = None
                        then s2\<lparr>visit_history := AList.update box_id [] (visit_history s2)\<rparr>
                        else s2)
              in (True, invalidate_cache s3)))
      | _ \<Rightarrow> (False, s))"

definition remove_box :: "optimizer \<Rightarrow> int \<Rightarrow> bool \<times> optimizer" where
  "remove_box s box_id =
     (if \<not> box_exists s box_id then (False, s)
      else
        (let s1 = s\<lparr>df := filter (\<lambda>r. n_boite r \<noteq> box_id) (df s)\<rparr>;
             s2 = (if map_of (last_visit s1) box_id \<noteq> None
                   then s1\<lparr>last_visit := AList.delete box_id (last_visit s1)\<rparr>
                   else s1);
             s3 = (if map_of (visit_history s2) box_id \<noteq> None
                   then s2\<lparr>visit_history := AList.delete box_id (visit_history s2)\<rparr>
                   else s2);
             s4 = (if map_of (score_cache s3) box_id \<noteq> None
                   then s3\<lparr>score_cache := AList.delete box_id (score_cache s3)\<rparr>
                   else s3)
         in (True, s4)))"

text \<open>
  The dictionary passed to \<open>update_box\<close>: the allowed fields, \<open>None\<close> when the key is absent.
\<close>

record box_update =
  bu_adresse :: "string option"
  bu_commune :: "string option"
  bu_cp :: "string option"
  bu_conteneur :: "string option"
  bu_volume_moyen :: "real option"

definition update_row :: "box_update \<Rightarrow> box_row \<Rightarrow> box_row" where
  "update_row u r =
     (let r1 = (case bu_adresse u of None \<Rightarrow> r | Some a \<Rightarrow> r\<lparr>adresse := a\<rparr>);
          r2 = (case bu_commune u of None \<Rightarrow> r1 | Some c \<Rightarrow> r1\<lparr>commune := c\<rparr>);
          r3 = (case bu_cp u of None \<Rightarrow> r2 | Some p \<Rightarrow> r2\<lparr>cp := p\<rparr>);
          r4 = (case bu_conteneur u of None \<Rightarrow> r3 | Some t \<Rightarrow> r3\<lparr>conteneur := t\<rparr>);
          r5 = (case bu_volume_moyen u of None \<Rightarrow> r4 | Some v \<Rightarrow> r4\<lparr>volume_moyen := Some v\<rparr>)
      in r5)"

definition update_box :: "optimizer \<Rightarrow> int \<Rightarrow> box_update \<Rightarrow> bool \<times> optimizer" where
  "update_box s box_id u =
     (if \<not> box_exists s box_id then (False, s)
      else
        (let s1 = s\<lparr>df := map (\<lambda>r. if n_boite r = box_id then update_row u r else r) (df s)\<rparr>
         in (True, invalidate_cache s1)))"

subsection \<open>Saving and loading the ledger\<close>

text \<open>
  The dictionary \<open>state\<close> that \<open>save_state\<close> hands to \<open>json.dump\<close> and that
  \<open>load_state\<close> gets back from \<open>json.load\<close>: string keys, timestamps as strings. The
  file is this dictionary; that JSON writes and reads it back unchanged is taken for granted.
\<close>

record saved_state =
  sv_last_visit :: "(string \<times> string) list"
  sv_visit_history :: "(string \<times> visit_record list) list"

text \<open>
  The dictionary comprehension over \<open>self.last_visit.items()\<close>. Reading \<open>v.tzinfo\<close> of a
  \<open>None\<close> entry raises \<open>AttributeError\<close>, outside the \<open>try\<close> block.
\<close>

fun save_last_visit ::
  "int \<Rightarrow> (int \<times> datetime option) list \<Rightarrow> (string \<times> string) list
   \<Rightarrow> error + (string \<times> string) list" where
  "save_last_visit tz [] acc = Inr acc"
| "save_last_visit tz ((k, v) # rest) acc =
     (case v of
        None \<Rightarrow> Inl AttributeError
      | Some d \<Rightarrow>
          save_last_visit tz rest
            (AList.update (py_str k)
               (if tzinfo d \<noteq> None then isoformat d else isoformat (d\<lparr>tzinfo := Some tz\<rparr>))
               acc))"

definition save_state :: "optimizer \<Rightarrow> error + saved_state" where
  "save_state s =
     (case save_last_visit (timezone s) (last_visit s) [] of
        Inl e \<Rightarrow> Inl e
      | Inr lv \<Rightarrow>
          Inr \<lparr>sv_last_visit = lv,
               sv_visit_history =
                 foldl (\<lambda>acc (k, v). AList.update (py_str k) v acc) [] (visit_history s)\<rparr>)"

text \<open>
  The loop of \<open>load_state\<close> that fills \<open>self.last_visit\<close>. The flag is false when an
  exception ended the loop; the entries read so far stay in place.
\<close>

fun load_last_visit ::
  "int \<Rightarrow> (string \<times> string) list \<Rightarrow> (int \<times> datetime option) list
   \<Rightarrow> (int \<times> datetime option) list \<times> bool" where
  "load_last_visit tz [] acc = (acc, True)"
| "load_last_visit tz ((k, v) # rest) acc =
     (case fromisoformat v of
        Inl e \<Rightarrow> (acc, False)
      | Inr dt \<Rightarrow>
          (let dt = (if tzinfo dt = None then dt\<lparr>tzinfo := Some tz\<rparr> else dt)
           in case py_int k of
                Inl e \<Rightarrow> (acc, False)
              | Inr i \<Rightarrow> load_last_visit tz rest (AList.update i (Some dt) acc)))"

fun load_visit_history ::
  "(string \<times> visit_record list) list \<Rightarrow> (int \<times> visit_record list) list
   \<Rightarrow> error + (int \<times> visit_record list) list" where
  "load_visit_history [] acc = Inr acc"
| "load_visit_history ((k, v) # rest) acc =
     (case py_int k of
        Inl e \<Rightarrow> Inl e
      | Inr i \<Rightarrow> load_visit_history rest (AList.update i v acc))"

text \<open>
  \<open>load_state\<close>; the file is \<open>None\<close> when it does not exist. Both exception handlers
  print a message and leave the object as it is at that moment.
\<close>

definition load_state :: "optimizer \<Rightarrow> saved_state option \<Rightarrow> optimizer" where
  "load_state s file =
     (case file of
        None \<Rightarrow> s
      | Some state \<Rightarrow>
          (case load_last_visit (timezone s) (sv_last_visit state) [] of
             (lv, False) \<Rightarrow> s\<lparr>last_visit := lv\<rparr>
           | (lv, True) \<Rightarrow>
               (case load_visit_history (sv_visit_history state) [] of
                  Inl e \<Rightarrow> s\<lparr>last_visit := lv\<rparr>
                | Inr vh \<Rightarrow> s\<lparr>last_visit := lv, visit_history := vh\<rparr>)))"

text \<open>A timestamp with the time zone attached when it is naive.\<close>

definition attach_timezone :: "int \<Rightarrow> datetime \<Rightarrow> datetime" where
  "attach_timezone tz d = (if tzinfo d \<noteq> None then d else d\<lparr>tzinfo := Some tz\<rparr>)"


section \<open>Example objects\<close>

text \<open>
  A catalog of two boxes over five weeks. Box 1 was last observed in week 1, box 2 in week 5.
\<close>

definition example_rows :: "box_row list" where
  "example_rows =
     [\<lparr>n_boite = 1, adresse = ''Rue du Lac 3'', commune = ''Nyon'', cp = ''1260'',
       conteneur = ''Textile'', volume_moyen = Some 5,
       semaines = [Some 4, None, None, None, None]\<rparr>,
      \<lparr>n_boite = 2, adresse = ''Chemin des Ouches 1'', commune = ''Gland'', cp = ''1196'',
       conteneur = ''Textile'', volume_moyen = Some 9,
       semaines = [Some 5, Some 5, Some 5, Some 5, Some 5]\<rparr>]"

definition example_state :: optimizer where
  "example_state =
     \<lparr>df = example_rows, week_columns = 5, last_visit = [], visit_history = [],
      score_cache = [], cache_valid = False, timezone = europe_zurich\<rparr>"

text \<open>The clock reading 2025-01-31 12:00 (+01:00), and visits 30 days and 1 day earlier.\<close>

definition example_now :: datetime where
  "example_now = \<lparr>year = 2025, month = 1, day = 31, hour = 12, minute = 0, second = 0,
                   microsecond = 0, tzinfo = Some 60\<rparr>"

definition visit_30_days_ago :: datetime where
  "visit_30_days_ago = \<lparr>year = 2025, month = 1, day = 1, hour = 12, minute = 0, second = 0,
                         microsecond = 0, tzinfo = Some 60\<rparr>"

definition visit_1_day_ago :: datetime where
  "visit_1_day_ago = \<lparr>year = 2025, month = 1, day = 30, hour = 11, minute = 0, second = 0,
                       microsecond = 0, tzinfo = Some 60\<rparr>"

text \<open>The example catalog with one visit of box 2 on record.\<close>

definition example_visited :: "datetime \<Rightarrow> optimizer" where
  "example_visited lv = example_state\<lparr>last_visit := [(2, Some lv)]\<rparr>"

text \<open>The example catalog as \<open>__init__\<close> leaves it: the cache filled and valid.\<close>

definition example_ready :: optimizer where
  "example_ready =
     \<lparr>df = example_rows, week_columns = 5, last_visit = [], visit_history = [],
      score_cache =
        [(1, \<lparr>fill_score = 0, urgency_score = 4, equity_score = 8, expected_fill = 4.3,
              profitability_score = 67.6, days_since_last_visit = None\<rparr>),
         (2, \<lparr>fill_score = 5, urgency_score = 7.2, equity_score = 8, expected_fill = 6.2,
              profitability_score = 100.32, days_since_last_visit = None\<rparr>)],
      cache_valid = True, timezone = europe_zurich\<rparr>"

text \<open>Payloads for \<open>update_box\<close> and \<open>add_box\<close>.\<close>

definition example_update :: box_update where
  "example_update =
     \<lparr>bu_adresse = None, bu_commune = None, bu_cp = None, bu_conteneur = None,
      bu_volume_moyen = Some 7\<rparr>"

definition example_new_box :: new_box where
  "example_new_box =
     \<lparr>nb_n_boite = Some 3, nb_adresse = Some ''Grand-Rue 10'', nb_commune = Some ''Rolle'',
      nb_cp = Some ''1180'', nb_conteneur = Some ''Textile'', nb_volume_moyen = Some 6\<rparr>"

text \<open>
  A ledger with an aware timestamp for box 2, a naive one for box 1, and one recorded visit.
\<close>

definition naive_visit :: datetime where
  "naive_visit = \<lparr>year = 2024, month = 2, day = 29, hour = 8, minute = 30, second = 15,
                   microsecond = 250000, tzinfo = None\<rparr>"

definition example_ledger :: optimizer where
  "example_ledger =
     example_state
       \<lparr>last_visit := [(2, Some visit_30_days_ago), (1, Some naive_visit)],
        visit_history :=
          [(2, [\<lparr>date = ''2025-01-01T12:00:00+01:00'', fill_level = Some 7.5,
                 vr_expected_fill = 6.2\<rparr>])]\<rparr>"

section \<open>What each computation reads\<close>

text \<open>
  The scores depend on the data frame, the number of week columns, the ledger and the
  time zone only.
\<close>

lemma box_data_cong: "df s' = df s \<Longrightarrow> box_data s' b = box_data s b"
  by (simp add: box_data_def)

lemma week_col_exists_cong:
  "week_columns s' = week_columns s \<Longrightarrow> week_col_exists s' = week_col_exists s"
  by (simp add: week_col_exists_def fun_eq_iff)

lemma current_week_for_box_cong:
  assumes "df s' = df s" and "week_columns s' = week_columns s"
  shows "get_current_week_for_box s' b = get_current_week_for_box s b"
  unfolding get_current_week_for_box_def
    box_data_cong [OF assms(1)] week_col_exists_cong [OF assms(2)] assms(2) ..

lemma fill_score_cong:
  assumes "df s' = df s" and "week_columns s' = week_columns s"
  shows "calculate_fill_score s' b w = calculate_fill_score s b w"
  unfolding calculate_fill_score_def
    box_data_cong [OF assms(1)] week_col_exists_cong [OF assms(2)]
    current_week_for_box_cong [OF assms] ..

lemma expected_fill_cong:
  assumes "df s' = df s" and "week_columns s' = week_columns s"
  shows "calculate_expected_fill s' b = calculate_expected_fill s b"
  unfolding calculate_expected_fill_def box_data_cong [OF assms(1)] fill_score_cong [OF assms] ..

lemma days_cong:
  assumes "last_visit s' = last_visit s" and "timezone s' = timezone s"
  shows "calculate_days_since_last_visit s' now b = calculate_days_since_last_visit s now b"
  unfolding calculate_days_since_last_visit_def assms ..

lemma urgency_cong:
  assumes "df s' = df s" and "last_visit s' = last_visit s" and "timezone s' = timezone s"
  shows "calculate_urgency_score s' now b = calculate_urgency_score s now b"
  unfolding calculate_urgency_score_def box_data_cong [OF assms(1)] days_cong [OF assms(2,3)] ..

lemma equity_cong:
  assumes "last_visit s' = last_visit s" and "timezone s' = timezone s"
  shows "calculate_equity_score s' now b = calculate_equity_score s now b"
  unfolding calculate_equity_score_def days_cong [OF assms] ..

lemma uncached_cong:
  assumes "df s' = df s" and "week_columns s' = week_columns s"
    and "last_visit s' = last_visit s" and "timezone s' = timezone s"
  shows "profitability_uncached s' now b = profitability_uncached s now b"
  unfolding profitability_uncached_def expected_fill_cong [OF assms(1,2)]
    urgency_cong [OF assms(1,3,4)] equity_cong [OF assms(3,4)] ..

section \<open>Evaluation of the examples\<close>

lemmas example_defs = example_state_def example_rows_def example_now_def

lemma box_data_example_1: "box_data example_state 1 = [example_rows ! 0]"
  by (simp add: box_data_def example_defs)

lemma box_data_example_2: "box_data example_state 2 = [example_rows ! 1]"
  by (simp add: box_data_def example_defs)

lemma current_week_example_1: "get_current_week_for_box example_state 1 = 1"
  by (simp add: get_current_week_for_box_def box_data_example_1)
     (simp add: example_defs eval_nat_numeral week_col_exists_def week_cell_def)

lemma current_week_example_2: "get_current_week_for_box example_state 2 = 5"
  by (simp add: get_current_week_for_box_def box_data_example_2)
     (simp add: example_defs eval_nat_numeral week_col_exists_def week_cell_def)

lemma current_week_example: "get_current_week example_state = 5"
  by (simp add: get_current_week_def example_defs eval_nat_numeral week_col_exists_def
      week_cell_def)

lemma fill_score_example_2: "calculate_fill_score example_state 2 None = 5"
  by (simp add: calculate_fill_score_def box_data_example_2 current_week_example_2
        List.map_filter_simps week_col_exists_def)
     (simp add: example_defs mean_def polyfit_slope_def eval_nat_numeral week_cell_def
        List.map_filter_simps)

lemma expected_fill_example_2: "calculate_expected_fill example_state 2 = 6.2"
  by (simp add: calculate_expected_fill_def fill_score_example_2 box_data_example_2)
     (simp add: example_defs)

lemma days_example: "calculate_days_since_last_visit example_state example_now b = Inr None"
  by (simp add: calculate_days_since_last_visit_def example_state_def)

lemma urgency_example_2: "calculate_urgency_score example_state example_now 2 = Inr 7.2"
  by (simp add: calculate_urgency_score_def days_example box_data_example_2)
     (simp add: example_defs)

lemma equity_example_2: "calculate_equity_score example_state example_now 2 = Inr 8"
  by (simp add: calculate_equity_score_def days_example)

lemma days_example_visited_30:
  "calculate_days_since_last_visit (example_visited visit_30_days_ago) example_now 2
     = Inr (Some 30)"
  by (simp add: calculate_days_since_last_visit_def example_visited_def example_state_def
      example_now_def visit_30_days_ago_def dt_sub_def local_micros_def toordinal_def
      days_before_year_def days_before_month_def is_leap_def timedelta_days_def)

lemma days_example_visited_1:
  "calculate_days_since_last_visit (example_visited visit_1_day_ago) example_now 2
     = Inr (Some 1)"
  by (simp add: calculate_days_since_last_visit_def example_visited_def example_state_def
      example_now_def visit_1_day_ago_def dt_sub_def local_micros_def toordinal_def
      days_before_year_def days_before_month_def is_leap_def timedelta_days_def)

lemma fill_score_example_1: "calculate_fill_score example_state 1 None = 4"
  by (simp add: calculate_fill_score_def box_data_example_1 current_week_example_1
        List.map_filter_simps week_col_exists_def)
     (simp add: example_defs mean_def polyfit_slope_def eval_nat_numeral week_cell_def
        List.map_filter_simps)

lemma fill_score_example_1_week_1: "calculate_fill_score example_state 1 (Some 1) = 4"
  by (simp add: calculate_fill_score_def box_data_example_1
        List.map_filter_simps week_col_exists_def)
     (simp add: example_defs mean_def polyfit_slope_def eval_nat_numeral week_cell_def
        List.map_filter_simps)

lemma fill_score_example_1_week_5: "calculate_fill_score example_state 1 (Some 5) = 0"
  by (simp add: calculate_fill_score_def box_data_example_1
        List.map_filter_simps week_col_exists_def)
     (simp add: example_defs mean_def polyfit_slope_def eval_nat_numeral week_cell_def
        List.map_filter_simps)

lemma fill_score_example_2_week_5: "calculate_fill_score example_state 2 (Some 5) = 5"
  by (simp add: calculate_fill_score_def box_data_example_2
        List.map_filter_simps week_col_exists_def)
     (simp add: example_defs mean_def polyfit_slope_def eval_nat_numeral week_cell_def
        List.map_filter_simps)

lemma expected_fill_example_1: "calculate_expected_fill example_state 1 = 4.3"
  by (simp add: calculate_expected_fill_def fill_score_example_1 box_data_example_1)
     (simp add: example_defs)

lemma urgency_example_1: "calculate_urgency_score example_state example_now 1 = Inr 4"
  by (simp add: calculate_urgency_score_def days_example box_data_example_1)
     (simp add: example_defs)

lemma equity_example: "calculate_equity_score example_state example_now b = Inr 8"
  by (simp add: calculate_equity_score_def days_example)

lemma uncached_example_1: "profitability_uncached example_state example_now 1 = Inr 67.6"
  by (simp add: profitability_uncached_def expected_fill_example_1 urgency_example_1 equity_example)

lemma uncached_example_2: "profitability_uncached example_state example_now 2 = Inr 100.32"
  by (simp add: profitability_uncached_def expected_fill_example_2 urgency_example_2 equity_example)

lemma example_state_invalid: "\<not> cache_valid example_state"
  by (simp add: example_state_def)

lemma read_invalid:
  "\<not> cache_valid s \<Longrightarrow> calculate_profitability_score s now b = profitability_uncached s now b"
  by (simp add: calculate_profitability_score_def)

lemma compute_snapshot_cong:
  assumes "df s' = df s" and "week_columns s' = week_columns s"
    and "last_visit s' = last_visit s" and "timezone s' = timezone s"
    and "\<not> cache_valid s'" and "\<not> cache_valid s"
  shows "compute_snapshot s' now b w = compute_snapshot s now b w"
  unfolding compute_snapshot_def read_invalid [OF assms(5)] read_invalid [OF assms(6)]
    fill_score_cong [OF assms(1,2)] expected_fill_cong [OF assms(1,2)]
    urgency_cong [OF assms(1,3,4)] equity_cong [OF assms(3,4)] days_cong [OF assms(3,4)]
    uncached_cong [OF assms(1-4)] ..

lemma snapshot_example_1:
  "compute_snapshot example_state example_now 1 5 =
     Inr \<lparr>fill_score = 0, urgency_score = 4, equity_score = 8, expected_fill = 4.3,
          profitability_score = 67.6, days_since_last_visit = None\<rparr>"
  by (simp add: compute_snapshot_def fill_score_example_1_week_5 urgency_example_1 equity_example
      expected_fill_example_1 read_invalid example_state_invalid uncached_example_1
      days_example)

lemma snapshot_example_2:
  "compute_snapshot example_state example_now 2 5 =
     Inr \<lparr>fill_score = 5, urgency_score = 7.2, equity_score = 8, expected_fill = 6.2,
          profitability_score = 100.32, days_since_last_visit = None\<rparr>"
  by (simp add: compute_snapshot_def fill_score_example_2_week_5 urgency_example_2 equity_example
      expected_fill_example_2 read_invalid example_state_invalid uncached_example_2
      days_example)

lemma init_example: "init 5 example_rows example_now = Inr example_ready"
proof -
  have i: "init 5 example_rows example_now = precompute_all_scores example_state example_now"
    by (simp add: init_def example_state_def)
  have rows: "df example_state = [example_rows ! 0, example_rows ! Suc 0]"
    by (simp add: example_defs)
  have ids: "n_boite (example_rows ! 0) = 1" "n_boite (example_rows ! Suc 0) = 2"
    by (simp_all add: example_rows_def)
  have s2: "compute_snapshot (example_state\<lparr>score_cache := c\<rparr>) example_now 2 5
              = compute_snapshot example_state example_now 2 5" for c
    by (rule compute_snapshot_cong) (simp_all add: example_state_invalid)
  have "precompute_rows example_state example_now 5 (df example_state)
          = Inr (example_ready\<lparr>cache_valid := False\<rparr>)"
    unfolding rows
    by (simp add: Let_def ids snapshot_example_1 s2 snapshot_example_2)
       (simp add: example_ready_def example_state_def)
  then show ?thesis
    unfolding i precompute_all_scores_def current_week_example
    by (simp add: example_ready_def)
qed


section \<open>Boxes unknown to the catalog and the ledger\<close>

lemma box_data_absent: "\<not> box_exists s b \<Longrightarrow> box_data s b = []"
  by (auto simp: box_exists_def box_data_def filter_empty_conv)

lemma days_never_visited:
  "map_of (last_visit s) b = None \<Longrightarrow> calculate_days_since_last_visit s now b = Inr None"
  by (simp add: calculate_days_since_last_visit_def)

text \<open>
  C10. For a box id that is neither in the catalog nor in the visit ledger, the scoring
  operations return their defaults and raise nothing: the fill score is 0 (whatever current
  week is passed), the urgency score is 3, the equity score is 8, and the detail lookup
  returns the not-found result.
\<close>

theorem absent_box_defaults:
  assumes "\<not> box_exists s b" and "map_of (last_visit s) b = None"
  shows "calculate_fill_score s b w = 0
       \<and> calculate_urgency_score s now b = Inr 3.0
       \<and> calculate_equity_score s now b = Inr 8.0
       \<and> get_box_details s now b = Inr None"
  using assms
  by (simp add: box_data_absent days_never_visited calculate_fill_score_def
      calculate_urgency_score_def calculate_equity_score_def get_box_details_def)

theorem absent_box_defaults_witness:
  "\<not> box_exists example_state 99 \<and> map_of (last_visit example_state) 99 = None
   \<and> calculate_fill_score example_state 99 None = 0
   \<and> calculate_urgency_score example_state example_now 99 = Inr 3.0
   \<and> calculate_equity_score example_state example_now 99 = Inr 8.0
   \<and> get_box_details example_state example_now 99 = Inr None"
proof -
  have a: "\<not> box_exists example_state 99"
    by (simp add: box_exists_def example_defs)
  have b: "map_of (last_visit example_state) 99 = None"
    by (simp add: example_state_def)
  show ?thesis
    using a b absent_box_defaults [OF a b, of None example_now] by simp
qed

section \<open>The profitability formula\<close>

text \<open>
  C8. When the expected fill lies in [0,10], the urgency in [0,10] and the equity in [0,15],
  the profitability computed from the catalog and the ledger is
  \<open>min ((expected_fill/10 \<times> 100) \<times> (1.0 + (urgency/10) \<times> 0.5) + (equity/15) \<times> 30) 130\<close>,
  it lies in [0,130], and it is what \<open>calculate_profitability_score\<close> returns whenever the
  cache does not serve the box.
\<close>

theorem profitability_formula:
  assumes "calculate_expected_fill s b = ef"
    and "calculate_urgency_score s now b = Inr u"
    and "calculate_equity_score s now b = Inr e"
    and "0 \<le> ef" and "ef \<le> 10" and "0 \<le> u" and "u \<le> 10" and "0 \<le> e" and "e \<le> 15"
  shows "profitability_uncached s now b
           = Inr (min ((ef / 10 * 100) * (1.0 + (u / 10) * 0.5) + (e / 15) * 30) 130)
       \<and> 0 \<le> min ((ef / 10 * 100) * (1.0 + (u / 10) * 0.5) + (e / 15) * 30) 130
       \<and> min ((ef / 10 * 100) * (1.0 + (u / 10) * 0.5) + (e / 15) * 30) 130 \<le> 130
       \<and> (\<not> cache_valid s \<or> map_of (score_cache s) b = None \<longrightarrow>
            calculate_profitability_score s now b = profitability_uncached s now b)"
proof -
  have base: "0 \<le> (ef / 10 * 100) * (1.0 + (u / 10) * 0.5)"
    using assms by (intro mult_nonneg_nonneg) auto
  have bonus: "0 \<le> (e / 15) * 30"
    using assms by simp
  show ?thesis
    using assms base bonus
    by (auto simp: profitability_uncached_def calculate_profitability_score_def Let_def)
qed

theorem profitability_formula_witness:
  "profitability_uncached example_state example_now 2 = Inr 100.32
   \<and> calculate_profitability_score example_state example_now 2 = Inr 100.32"
  using profitability_formula [OF expected_fill_example_2 urgency_example_2 equity_example_2]
  by (simp add: example_state_def)

section \<open>The equity score\<close>

text \<open>
  C6 (as amended). For a visited box with \<open>d\<close> days since its last visit, the equity score
  is 0 if \<open>d \<le> 0\<close>, \<open>d \<times> 0.5\<close> if \<open>0 < d \<le> 7\<close>, \<open>3.5 + (d - 7) \<times> 0.2\<close> if \<open>7 < d \<le> 30\<close> and
  \<open>min (8.0 + (d - 30) \<times> 0.1) 15.0\<close> if \<open>d > 30\<close>. At the breakpoint 7 the two adjacent
  formulas both give 3.5. At the breakpoint 30 they differ: the formula of the third branch,
  which is the one the code applies there, gives 8.1 and the formula of the last branch
  gives 8.0.
\<close>

theorem equity_piecewise:
  assumes "calculate_days_since_last_visit s now b = Inr (Some d)"
  shows "calculate_equity_score s now b =
           Inr (if d \<le> 0 then 0.0
                else if d \<le> 7 then real_of_int d * 0.5
                else if d \<le> 30 then 3.5 + (real_of_int d - 7) * 0.2
                else min (8.0 + (real_of_int d - 30) * 0.1) 15.0)
       \<and> real_of_int 7 * 0.5 = (3.5 :: real)
       \<and> 3.5 + (real_of_int 7 - 7) * 0.2 = (3.5 :: real)
       \<and> 3.5 + (real_of_int 30 - 7) * 0.2 = (8.1 :: real)
       \<and> min (8.0 + (real_of_int 30 - 30) * 0.1) 15.0 = (8.0 :: real)"
  using assms by (simp add: calculate_equity_score_def)

theorem equity_piecewise_witness:
  "calculate_equity_score (example_visited visit_30_days_ago) example_now 2 = Inr 8.1"
  using equity_piecewise [OF days_example_visited_30] by simp

text \<open>
  The claim as first stated has the score equal to 8.0 thirty days after a visit; the code
  returns 8.1.
\<close>

theorem equity_breakpoint_30_counterexample:
  "calculate_days_since_last_visit (example_visited visit_30_days_ago) example_now 2
     = Inr (Some 30)
   \<and> calculate_equity_score (example_visited visit_30_days_ago) example_now 2 \<noteq> Inr 8.0"
  by (simp add: days_example_visited_30 calculate_equity_score_def)

section \<open>The urgency score\<close>

lemma exp_3_ge_9: "9 \<le> exp (3::real)"
proof -
  have "(7/4 :: real) \<le> exp (3/4)"
    using exp_ge_add_one_self [of "3/4 :: real"] by simp
  then have "(7/4 :: real) ^ 4 \<le> exp (3/4) ^ 4"
    by (intro power_mono) auto
  also have "exp (3/4 :: real) ^ 4 = exp 3"
    using exp_of_nat_mult [of 4 "3/4 :: real"] by simp
  finally show ?thesis by (simp add: power4_eq_xxxx)
qed

lemma logistic_bounds:
  "0 < 10 / (1 + exp (x::real))" "10 / (1 + exp (x::real)) < 10"
proof -
  have "0 < exp x" by simp
  then show "0 < 10 / (1 + exp x)" by (simp add: add_pos_pos)
  have "1 < 1 + exp x" by simp
  then show "10 / (1 + exp x) < 10"
    by (simp add: divide_less_eq add_pos_pos)
qed

text \<open>
  C7 (as amended). For a visited box with \<open>d\<close> days since its last visit, the urgency score
  is the logistic value \<open>10 / (1 + exp (-0.5 \<times> (d - 7)))\<close>, raised to at least 1.0 when
  \<open>d \<le> 1\<close> and to at least 2.0 when \<open>1 < d \<le> 3\<close>, and it lies in [0,10].
\<close>

theorem urgency_logistic:
  assumes "calculate_days_since_last_visit s now b = Inr (Some d)"
  shows "let l = 10 / (1 + exp (- 0.5 * (real_of_int d - 7)));
             u = (if d \<le> 1 then max l 1.0 else if d \<le> 3 then max l 2.0 else l)
         in calculate_urgency_score s now b = Inr u \<and> 0 \<le> u \<and> u \<le> 10"
  using assms logistic_bounds [of "- 0.5 * (real_of_int d - 7)"]
  by (auto simp: calculate_urgency_score_def Let_def max_def min_def)

theorem urgency_logistic_witness:
  "calculate_urgency_score (example_visited visit_30_days_ago) example_now 2
     = Inr (10 / (1 + exp (- 0.5 * (30 - 7))))"
  using urgency_logistic [OF days_example_visited_30] by (simp add: Let_def)

text \<open>
  The claim as first stated has the score at least 2.0 whenever \<open>d \<le> 3\<close>. One day after a
  visit the logistic value is below 1, only the floor 1.0 applies, and the score is 1.0.
\<close>

theorem urgency_floor_counterexample:
  "calculate_days_since_last_visit (example_visited visit_1_day_ago) example_now 2
     = Inr (Some 1)
   \<and> calculate_urgency_score (example_visited visit_1_day_ago) example_now 2 = Inr 1.0
   \<and> calculate_urgency_score (example_visited visit_1_day_ago) example_now 2 \<noteq> Inr 2.0"
proof -
  have "10 / (1 + exp (3::real)) \<le> 1"
    using exp_3_ge_9 by (simp add: divide_le_eq add_pos_pos)
  then show ?thesis
    by (simp add: days_example_visited_1 calculate_urgency_score_def max_def min_def)
qed

section \<open>A freshly added box\<close>

lemma days_placeholder:
  "map_of (last_visit s) b = Some None \<Longrightarrow>
   calculate_days_since_last_visit s now b = Inl AttributeError"
  by (simp add: calculate_days_since_last_visit_def)

lemma add_box_ledger:
  assumes "add_box s nb = (True, s')" and "nb_n_boite nb = Some b"
    and "map_of (last_visit s) b = None"
  shows "map_of (last_visit s') b = Some None"
  using assms
  by (auto simp: add_box_def invalidate_cache_def Let_def update_conv'
      split: option.splits if_splits)

text \<open>
  A box of the catalog without any ledger entry gets the scores of a box never visited.
\<close>

lemma never_visited_scores:
  assumes "map_of (last_visit s) b = None" and "box_data s b = r # rs"
  shows "calculate_equity_score s now b = Inr 8.0"
    and "calculate_urgency_score s now b =
           (case volume_moyen r of
              None \<Rightarrow> Inr 3.0
            | Some avg_fill \<Rightarrow> if avg_fill > 0 then Inr (min (avg_fill * 0.8) 8.0) else Inr 3.0)"
  using assms
  by (simp_all add: calculate_equity_score_def calculate_urgency_score_def days_never_visited)

text \<open>
  C4 (the code's behaviour on a freshly added box). A successful \<open>add_box\<close> of an id
  that has no ledger entry stores the placeholder \<open>None\<close> as its last visit. The box then
  counts as visited, and both the equity and the urgency computation raise
  \<open>AttributeError\<close> instead of returning 8.0 and the proxy value.
\<close>

theorem add_box_then_scores_raise:
  assumes "add_box s nb = (True, s')" and "nb_n_boite nb = Some b"
    and "map_of (last_visit s) b = None"
  shows "calculate_equity_score s' now b = Inl AttributeError
       \<and> calculate_urgency_score s' now b = Inl AttributeError"
  using add_box_ledger [OF assms]
  by (simp add: calculate_equity_score_def calculate_urgency_score_def days_placeholder)

lemma add_box_example: "fst (add_box example_state example_new_box)"
  by (simp add: add_box_def example_new_box_def box_exists_def example_defs Let_def)

theorem add_box_then_scores_raise_witness:
  "calculate_equity_score (snd (add_box example_state example_new_box)) example_now 3
     = Inl AttributeError
   \<and> calculate_urgency_score (snd (add_box example_state example_new_box)) example_now 3
     = Inl AttributeError"
proof -
  have a: "add_box example_state example_new_box
             = (True, snd (add_box example_state example_new_box))"
    using add_box_example by (simp add: prod_eq_iff)
  have b: "nb_n_boite example_new_box = Some 3"
    by (simp add: example_new_box_def)
  have c: "map_of (last_visit example_state) 3 = None"
    by (simp add: example_state_def)
  show ?thesis
    using add_box_then_scores_raise [OF a b c] by simp
qed

section \<open>Marking a visit of an unknown box\<close>

lemma dt_sub_self: "tzinfo now \<noteq> None \<Longrightarrow> dt_sub now now = Inr 0"
  by (auto simp: dt_sub_def split: option.splits)

lemma days_just_visited:
  assumes "map_of (last_visit s) b = Some (Some now)" and "tzinfo now \<noteq> None"
  shows "calculate_days_since_last_visit s now b = Inr (Some 0)"
  using assms by (simp add: calculate_days_since_last_visit_def dt_sub_self timedelta_days_def)

lemma urgency_total:
  "calculate_days_since_last_visit s now b = Inr d \<Longrightarrow> \<not> isl (calculate_urgency_score s now b)"
  by (cases d; simp add: calculate_urgency_score_def Let_def split: option.splits list.splits)

lemma equity_total:
  "calculate_days_since_last_visit s now b = Inr d \<Longrightarrow> \<not> isl (calculate_equity_score s now b)"
  by (cases d; simp add: calculate_equity_score_def)

lemma uncached_total:
  "calculate_days_since_last_visit s now b = Inr d \<Longrightarrow> \<not> isl (profitability_uncached s now b)"
  using urgency_total [of s now b d] equity_total [of s now b d]
  by (auto simp: profitability_uncached_def Let_def split: sum.splits)

lemma profitability_total:
  "calculate_days_since_last_visit s now b = Inr d \<Longrightarrow> \<not> isl (calculate_profitability_score s now b)"
  using uncached_total [of s now b d]
  by (simp add: calculate_profitability_score_def split: option.splits)

lemma compute_snapshot_total:
  assumes "calculate_days_since_last_visit s now b = Inr d"
  shows "\<not> isl (compute_snapshot s now b w)"
  using urgency_total [OF assms] equity_total [OF assms] profitability_total [OF assms] assms
  by (auto simp: compute_snapshot_def Let_def split: sum.splits)

lemma recalculate_total:
  assumes "calculate_days_since_last_visit s now b = Inr d"
  shows "\<exists>snap. recalculate_box_scores s now b
            = Inr (s\<lparr>score_cache := AList.update b snap (score_cache s)\<rparr>)"
  using compute_snapshot_total [OF assms, of "get_current_week_for_box s b"]
  by (cases "compute_snapshot s now b (get_current_week_for_box s b)")
     (auto simp: recalculate_box_scores_def Let_def)


lemma mark_visit_succeeds:
  assumes "tzinfo now \<noteq> None"
  shows "\<exists>s'. mark_visit s now b fl = Inr s'
            \<and> map_of (last_visit s') b = Some (Some now)
            \<and> map_of (visit_history s') b \<noteq> None
            \<and> map_of (score_cache s') b \<noteq> None
            \<and> df s' = df s"
proof -
  define s4 where "s4 = invalidate_cache
     (let s1 = s\<lparr>last_visit := AList.update b (Some now) (last_visit s)\<rparr>;
          s2 = (if map_of (visit_history s1) b = None
                then s1\<lparr>visit_history := AList.update b [] (visit_history s1)\<rparr>
                else s1)
      in s2\<lparr>visit_history :=
                    AList.update b
                      ((case map_of (visit_history s2) b of None \<Rightarrow> [] | Some h \<Rightarrow> h)
                       @ [\<lparr>date = isoformat now, fill_level = fl, vr_expected_fill = calculate_expected_fill s b\<rparr>])
                      (visit_history s2)\<rparr>)"
  have mv: "mark_visit s now b fl = recalculate_box_scores s4 now b"
    by (simp add: mark_visit_def s4_def Let_def)
  have lv: "map_of (last_visit s4) b = Some (Some now)"
    by (simp add: s4_def invalidate_cache_def Let_def update_conv')
  have vh: "map_of (visit_history s4) b \<noteq> None"
    by (simp add: s4_def invalidate_cache_def Let_def update_conv')
  have dfs: "df s4 = df s"
    by (simp add: s4_def invalidate_cache_def Let_def)
  obtain snap where "recalculate_box_scores s4 now b
            = Inr (s4\<lparr>score_cache := AList.update b snap (score_cache s4)\<rparr>)"
    using recalculate_total [OF days_just_visited [OF lv assms]] by blast
  then show ?thesis
    using mv lv vh dfs by (simp add: update_conv')
qed

text \<open>
  C1 (the code's behaviour on an unknown box). \<open>mark_visit\<close> does not look the box up:
  for an id absent from the catalog it returns normally, having recorded the visit in
  \<open>last_visit\<close> and \<open>visit_history\<close> and stored a bundle for the id in the score cache.
\<close>

theorem mark_visit_unknown_box:
  assumes "\<not> box_exists s b" and "tzinfo now \<noteq> None"
  shows "\<exists>s'. mark_visit s now b fl = Inr s'
            \<and> map_of (last_visit s') b = Some (Some now)
            \<and> map_of (visit_history s') b \<noteq> None
            \<and> map_of (score_cache s') b \<noteq> None
            \<and> \<not> box_exists s' b"
  using mark_visit_succeeds [OF assms(2), of s b fl] assms(1)
  by (auto simp: box_exists_def)

theorem mark_visit_unknown_box_witness:
  "\<exists>s'. mark_visit example_state example_now 99 None = Inr s'
        \<and> map_of (last_visit s') 99 = Some (Some example_now)
        \<and> map_of (visit_history s') 99 \<noteq> None
        \<and> map_of (score_cache s') 99 \<noteq> None
        \<and> \<not> box_exists s' 99"
proof -
  have a: "\<not> box_exists example_state 99"
    by (simp add: box_exists_def example_defs)
  have b: "tzinfo example_now \<noteq> None"
    by (simp add: example_now_def)
  show ?thesis
    using mark_visit_unknown_box [OF a b] by simp
qed

section \<open>The pre-computation pass\<close>

text \<open>
  C3 (the code's behaviour in the pre-computation pass). \<open>__init__\<close> on the example
  catalog stores the fill score 0 for box 1: the pass takes the catalog-wide current week 5,
  whose window (weeks 2 to 5) holds no observation of box 1. The box's own current week is
  1, and \<open>calculate_fill_score\<close> with it (or with no week given) is 4.
\<close>

theorem prewarm_uses_global_week:
  "init 5 example_rows example_now = Inr example_ready
   \<and> map_option fill_score (map_of (score_cache example_ready) 1) = Some 0
   \<and> get_current_week_for_box example_ready 1 = 1
   \<and> calculate_fill_score example_ready 1 (Some 1) = 4
   \<and> calculate_fill_score example_ready 1 None = 4"
proof -
  have d: "df example_ready = df example_state" "week_columns example_ready = week_columns example_state"
    by (simp_all add: example_ready_def example_state_def)
  show ?thesis
    unfolding fill_score_cong [OF d] current_week_for_box_cong [OF d]
    by (simp add: init_example fill_score_example_1 fill_score_example_1_week_1
        current_week_example_1) (simp add: example_ready_def)
qed

section \<open>The cache after a mutation\<close>

lemma add_box_invalidates:
  "add_box s nb = (True, s') \<Longrightarrow> \<not> cache_valid s' \<and> score_cache s' = []"
  by (auto simp: add_box_def invalidate_cache_def Let_def split: option.splits if_splits)

lemma update_box_invalidates:
  "update_box s b u = (True, s') \<Longrightarrow> \<not> cache_valid s' \<and> score_cache s' = []"
  by (auto simp: update_box_def invalidate_cache_def Let_def split: if_splits)

lemma delete_absent: "map_of al k = None \<Longrightarrow> AList.delete k al = al"
  by (induction al) (auto split: if_splits)

lemma remove_box_cache:
  "remove_box s b = (True, s') \<Longrightarrow>
   score_cache s' = AList.delete b (score_cache s) \<and> cache_valid s' = cache_valid s"
  by (auto simp: remove_box_def Let_def delete_absent split: if_splits)

lemma mark_visit_invalid:
  assumes "mark_visit s now b fl = Inr s'"
  shows "\<not> cache_valid s'"
  using assms
  by (auto simp: mark_visit_def recalculate_box_scores_def invalidate_cache_def Let_def
      split: sum.splits)

text \<open>
  C2 (as amended). After a successful \<open>add_box\<close> or \<open>update_box\<close> the cache is
  invalid: the flag is false and the bundle map is empty. After a successful \<open>remove_box\<close>
  the removed box has no bundle in the cache; the flag and the bundles of the other boxes
  are as before.
\<close>

theorem catalog_mutation_cache:
  "(add_box s nb = (True, s1) \<longrightarrow> \<not> cache_valid s1 \<and> score_cache s1 = [])
   \<and> (update_box s b u = (True, s2) \<longrightarrow> \<not> cache_valid s2 \<and> score_cache s2 = [])
   \<and> (remove_box s b = (True, s3) \<longrightarrow>
        score_cache s3 = AList.delete b (score_cache s)
        \<and> map_of (score_cache s3) b = None
        \<and> cache_valid s3 = cache_valid s)"
  using add_box_invalidates [of s nb s1] update_box_invalidates [of s b u s2]
    remove_box_cache [of s b s3]
  by (simp add: delete_conv')

lemma add_box_example_ready: "fst (add_box example_ready example_new_box)"
  by (simp add: add_box_def example_new_box_def box_exists_def example_ready_def example_rows_def Let_def)

lemma update_box_example_ready: "fst (update_box example_ready 1 example_update)"
  by (simp add: update_box_def box_exists_def example_ready_def example_rows_def Let_def)

lemma remove_box_example_ready: "fst (remove_box example_ready 1)"
  by (simp add: remove_box_def box_exists_def example_ready_def example_rows_def Let_def)

lemma pair_fst: "fst p \<Longrightarrow> p = (True, snd p)"
  by (cases p) simp

theorem catalog_mutation_cache_witness:
  "\<not> cache_valid (snd (add_box example_ready example_new_box))
   \<and> score_cache (snd (add_box example_ready example_new_box)) = []
   \<and> \<not> cache_valid (snd (update_box example_ready 1 example_update))
   \<and> score_cache (snd (update_box example_ready 1 example_update)) = []
   \<and> score_cache (snd (remove_box example_ready 1)) = AList.delete 1 (score_cache example_ready)
   \<and> map_of (score_cache (snd (remove_box example_ready 1))) 1 = None
   \<and> cache_valid (snd (remove_box example_ready 1)) = cache_valid example_ready"
  using catalog_mutation_cache [of example_ready example_new_box
      "snd (add_box example_ready example_new_box)" 1 example_update
      "snd (update_box example_ready 1 example_update)"
      "snd (remove_box example_ready 1)"]
    pair_fst [OF add_box_example_ready] pair_fst [OF update_box_example_ready]
    pair_fst [OF remove_box_example_ready]
  by (simp add: delete_conv')

text \<open>
  The claim as first stated has the cache invalid after every successful \<open>remove_box\<close>.
  Removing box 1 from the freshly built example leaves the flag true and the bundle of box 2
  in the cache.
\<close>

theorem remove_box_keeps_cache_counterexample:
  "fst (remove_box example_ready 1)
   \<and> cache_valid (snd (remove_box example_ready 1))
   \<and> score_cache (snd (remove_box example_ready 1)) \<noteq> []"
  by (simp add: remove_box_def box_exists_def example_ready_def example_rows_def Let_def)

lemma read_absent:
  "map_of (score_cache s) b = None \<Longrightarrow>
   calculate_profitability_score s now b = profitability_uncached s now b"
  by (simp add: calculate_profitability_score_def)

text \<open>
  After \<open>mark_visit\<close>, \<open>add_box\<close>, \<open>remove_box\<close> or \<open>update_box\<close> has succeeded, a
  profitability read does not take a cached value: it runs the computation from the catalog
  and the ledger of the new state.
\<close>

lemma read_after_mutation_uncached:
  "(mark_visit s now b fl = Inr s1 \<longrightarrow>
      calculate_profitability_score s1 later b = profitability_uncached s1 later b)
   \<and> (add_box s nb = (True, s2) \<longrightarrow>
      calculate_profitability_score s2 later k = profitability_uncached s2 later k)
   \<and> (remove_box s b = (True, s3) \<longrightarrow>
      calculate_profitability_score s3 later b = profitability_uncached s3 later b)
   \<and> (update_box s b u = (True, s4) \<longrightarrow>
      calculate_profitability_score s4 later k = profitability_uncached s4 later k)"
  using mark_visit_invalid [of s now b fl s1] add_box_invalidates [of s nb s2]
    remove_box_cache [of s b s3] update_box_invalidates [of s b u s4]
  by (auto simp: read_invalid read_absent delete_conv')

text \<open>
  C5 (the code's behaviour after \<open>add_box\<close>). After a successful \<open>add_box\<close> of an id that
  has no ledger entry, the next profitability read for the new box does run the
  computation on the new state, but that computation meets the placeholder \<open>None\<close> stored
  as the box's last visit: the read raises \<open>AttributeError\<close> and returns no value.
\<close>

theorem add_box_then_read_raises:
  assumes "add_box s nb = (True, s')" and "nb_n_boite nb = Some b"
    and "map_of (last_visit s) b = None"
  shows "calculate_profitability_score s' now b = Inl AttributeError"
proof -
  have invalid: "\<not> cache_valid s'"
    using add_box_invalidates [OF assms(1)] by simp
  have "calculate_days_since_last_visit s' now b = Inl AttributeError"
    using add_box_ledger [OF assms] by (rule days_placeholder)
  then have "calculate_urgency_score s' now b = Inl AttributeError"
    by (simp add: calculate_urgency_score_def)
  then show ?thesis
    by (simp add: read_invalid [OF invalid] profitability_uncached_def)
qed

theorem add_box_then_read_raises_witness:
  "calculate_profitability_score (snd (add_box example_ready example_new_box)) example_now 3
     = Inl AttributeError"
proof -
  have a: "add_box example_ready example_new_box
             = (True, snd (add_box example_ready example_new_box))"
    by (rule pair_fst [OF add_box_example_ready])
  have b: "nb_n_boite example_new_box = Some 3"
    by (simp add: example_new_box_def)
  have c: "map_of (last_visit example_ready) 3 = None"
    by (simp add: example_ready_def)
  show ?thesis
    using add_box_then_read_raises [OF a b c] by simp
qed

section \<open>Numbers and timestamps written and read back\<close>

lemma digit_val_digit_char: "n < 10 \<Longrightarrow> digit_val (digit_char n) = Some n"
  by (simp add: digit_val_def digit_char_def Let_def)

lemma parse_digits_append:
  "parse_digits (xs @ ys) acc =
     (case parse_digits xs acc of None \<Rightarrow> None | Some a \<Rightarrow> parse_digits ys a)"
  by (induction xs arbitrary: acc) (auto split: option.splits)

lemma parse_digits_show_nat:
  "parse_digits (show_nat n) acc = Some (acc * 10 ^ length (show_nat n) + n)"
proof (induction n arbitrary: acc rule: show_nat.induct)
  case (1 n)
  show ?case
  proof (cases "n < 10")
    case True
    then show ?thesis
      by (subst (1 2) show_nat.simps) (simp add: digit_val_digit_char)
  next
    case False
    have m: "n mod 10 < 10" by simp
    show ?thesis
      using False "1.IH" [OF False]
      by (subst (1 2) show_nat.simps)
         (simp add: parse_digits_append digit_val_digit_char [OF m] algebra_simps)
  qed
qed

lemma show_nat_nonempty: "show_nat n \<noteq> []"
  by (subst show_nat.simps) simp

lemma parse_nat_show_nat: "parse_nat (show_nat n) = Some n"
  by (simp add: parse_nat_def show_nat_nonempty parse_digits_show_nat)

lemma parse_digits_zeros: "parse_digits (replicate k CHR ''0'') 0 = Some 0"
  by (induction k) (simp_all add: digit_val_def)

lemma parse_nat_zpad: "parse_nat (zpad w n) = Some n"
  by (simp add: parse_nat_def zpad_def show_nat_nonempty parse_digits_append
      parse_digits_zeros parse_digits_show_nat)

lemma length_show_nat: "0 < w \<Longrightarrow> n < 10 ^ w \<Longrightarrow> length (show_nat n) \<le> w"
proof (induction n arbitrary: w rule: show_nat.induct)
  case (1 n)
  show ?case
  proof (cases "n < 10")
    case True
    then show ?thesis using "1.prems" by (subst show_nat.simps) simp
  next
    case False
    then have "10 \<le> n" by simp
    with "1.prems" have "1 < w"
      by (cases "w = 1") auto
    then obtain v where w: "w = Suc v" and v: "0 < v"
      by (cases w) auto
    have "n div 10 < 10 ^ v"
      using "1.prems"(2) w by (simp add: less_mult_imp_div_less mult.commute)
    from "1.IH" [OF False v this] show ?thesis
      using False w by (subst show_nat.simps) simp
  qed
qed

lemma length_zpad: "0 < w \<Longrightarrow> n < 10 ^ w \<Longrightarrow> length (zpad w n) = w"
  using length_show_nat [of w n] by (simp add: zpad_def)

lemma take_num_zpad:
  assumes "0 < w" and "n < 10 ^ w"
  shows "take_num w (zpad w n @ rest) = Some (n, rest)"
  using length_zpad [OF assms] by (simp add: take_num_def parse_nat_zpad)

lemma hd_show_nat: "\<exists>d cs. show_nat n = digit_char d # cs \<and> d < 10"
proof (induction n rule: show_nat.induct)
  case (1 n)
  show ?case
  proof (cases "n < 10")
    case True
    then show ?thesis by (subst show_nat.simps) auto
  next
    case False
    from "1.IH" [OF False] obtain d cs where "show_nat (n div 10) = digit_char d # cs" "d < 10"
      by blast
    then show ?thesis using False by (subst show_nat.simps) auto
  qed
qed

lemma digit_char_not_sign: "d < 10 \<Longrightarrow> digit_char d \<noteq> CHR ''-'' \<and> digit_char d \<noteq> CHR ''+''"
  using digit_val_digit_char [of d] by (auto simp: digit_val_def)

lemma py_int_py_str: "py_int (py_str k) = Inr k"
proof (cases "k < 0")
  case True
  then show ?thesis
    by (simp add: py_int_def py_str_def parse_nat_show_nat)
next
  case False
  obtain d cs where s: "show_nat (nat k) = digit_char d # cs" and d: "d < 10"
    using hd_show_nat by blast
  have "parse_nat (digit_char d # cs) = Some (nat k)"
    using parse_nat_show_nat [of "nat k"] s by simp
  then show ?thesis
    using False s digit_char_not_sign [OF d]
    by (simp add: py_int_def py_str_def)
qed

lemma expect_Cons: "expect c (c # rest) = Some rest"
  by (simp add: expect_def)

lemma take_num_zpad_2: "n < 100 \<Longrightarrow> take_num 2 (zpad 2 n @ rest) = Some (n, rest)"
  by (rule take_num_zpad) simp_all

lemma take_num_zpad_4: "n < 10000 \<Longrightarrow> take_num 4 (zpad 4 n @ rest) = Some (n, rest)"
  by (rule take_num_zpad) simp_all

lemma take_num_zpad_6: "n < 1000000 \<Longrightarrow> take_num 6 (zpad 6 n @ rest) = Some (n, rest)"
  by (rule take_num_zpad) simp_all

lemma zpad_2_nil: "n < 100 \<Longrightarrow> take_num 2 (zpad 2 n) = Some (n, [])"
  using take_num_zpad_2 [of n "[]"] by simp

lemma parse_offset_format:
  assumes "\<bar>m\<bar> < 1440"
  shows "parse_offset (format_offset (Some m)) = Some (Some m)"
proof -
  define a where "a = nat \<bar>m\<bar>"
  have h: "a div 60 < 100" and mi: "a mod 60 < 100"
    using assms by (auto simp: a_def)
  have v: "int (a div 60 * 60 + a mod 60) = \<bar>m\<bar>"
    by (simp add: a_def)
  have f: "format_offset (Some m)
             = (if m < 0 then CHR ''-'' else CHR ''+'') # zpad 2 (a div 60) @ CHR '':'' # zpad 2 (a mod 60)"
    by (simp add: format_offset_def a_def)
  show ?thesis
    unfolding f parse_offset_def
    using v
    by (simp add: take_num_zpad_2 [OF h] expect_Cons zpad_2_nil [OF mi]
        del: of_nat_add of_nat_mult)
qed

lemma parse_offset_none: "parse_offset (format_offset None) = Some None"
  by (simp add: parse_offset_def format_offset_def)

lemma days_in_month_le: "days_in_month y m \<le> 31"
proof -
  have "min m 12 = 0 \<or> min m 12 = 1 \<or> min m 12 = 2 \<or> min m 12 = 3 \<or> min m 12 = 4
      \<or> min m 12 = 5 \<or> min m 12 = 6 \<or> min m 12 = 7 \<or> min m 12 = 8 \<or> min m 12 = 9
      \<or> min m 12 = 10 \<or> min m 12 = 11 \<or> min m 12 = 12"
    by arith
  then show ?thesis
    unfolding days_in_month_def by (elim disjE) simp_all
qed

lemma parse_fraction_isoformat:
  assumes "us < 1000000"
  shows "parse_fraction ((if us \<noteq> 0 then ''.'' @ zpad 6 us else []) @ format_offset tz)
           = Some (us, format_offset tz)"
proof (cases "us = 0")
  case True
  then show ?thesis
    by (cases tz) (simp_all add: parse_fraction_def format_offset_def)
next
  case False
  then show ?thesis
    by (simp add: parse_fraction_def take_num_zpad_6 [OF assms])
qed

lemma parse_offset_format_any:
  "(case tz of None \<Rightarrow> True | Some m \<Rightarrow> \<bar>m\<bar> < 1440) \<Longrightarrow>
   parse_offset (format_offset tz) = Some tz"
  by (cases tz) (simp_all add: parse_offset_none parse_offset_format)

lemma datetime_eta:
  "\<lparr>year = year d, month = month d, day = day d, hour = hour d, minute = minute d,
    second = second d, microsecond = microsecond d, tzinfo = tzinfo d\<rparr> = d"
  by (cases d) simp

lemma fromisoformat_isoformat:
  assumes "valid_datetime d"
  shows "fromisoformat (isoformat d) = Inr d"
proof -
  have y: "year d < 10000" and m: "month d < 100" and dd: "day d < 100"
    and h: "hour d < 100" and mi: "minute d < 100" and s: "second d < 100"
    and us: "microsecond d < 1000000"
    and tz: "(case tzinfo d of None \<Rightarrow> True | Some m \<Rightarrow> \<bar>m\<bar> < 1440)"
    using assms days_in_month_le [of "year d" "month d"] by (auto simp: valid_datetime_def)
  define fr where
    "fr = (if microsecond d \<noteq> 0 then ''.'' @ zpad 6 (microsecond d) else [])
          @ format_offset (tzinfo d)"
  have iso: "isoformat d =
     zpad 4 (year d) @ CHR ''-'' # zpad 2 (month d) @ CHR ''-'' # zpad 2 (day d) @ CHR ''T''
     # zpad 2 (hour d) @ CHR '':'' # zpad 2 (minute d) @ CHR '':'' # zpad 2 (second d) @ fr"
    by (simp add: isoformat_def fr_def)
  have pf: "parse_fraction fr = Some (microsecond d, format_offset (tzinfo d))"
    unfolding fr_def by (rule parse_fraction_isoformat [OF us])
  show ?thesis
    unfolding iso fromisoformat_def
    using assms
    by (simp add: take_num_zpad_4 [OF y] take_num_zpad_2 [OF m]
        take_num_zpad_2 [OF dd] take_num_zpad_2 [OF h] take_num_zpad_2 [OF mi]
        take_num_zpad_2 [OF s] expect_Cons pf parse_offset_format_any [OF tz]
        datetime_eta)
qed

section \<open>Saving and loading the ledger\<close>

lemma update_fresh: "k \<notin> fst ` set al \<Longrightarrow> AList.update k v al = al @ [(k, v)]"
  by (induction al) auto

lemma py_str_inj:
  assumes "py_str a = py_str b"
  shows "a = b"
proof -
  have "Inr a = py_int (py_str a)"
    by (simp only: py_int_py_str)
  also have "\<dots> = py_int (py_str b)"
    by (simp only: assms)
  also have "\<dots> = Inr b"
    by (simp only: py_int_py_str)
  finally show ?thesis by simp
qed

lemma fresh_step:
  assumes "distinct (map fst (item # items))"
    and "\<forall>k \<in> fst ` set (item # items). f k \<notin> fst ` set acc"
    and "\<And>a b. f a = f b \<Longrightarrow> a = b"
  shows "\<forall>k \<in> fst ` set items. f k \<notin> fst ` set (acc @ [(f (fst item), x)])"
proof
  fix k assume k: "k \<in> fst ` set items"
  then have "k \<noteq> fst item" using assms(1) by (cases item) auto
  then have "f k \<noteq> f (fst item)" using assms(3) by blast
  moreover have "f k \<notin> fst ` set acc" using assms(2) k by auto
  ultimately show "f k \<notin> fst ` set (acc @ [(f (fst item), x)])" by auto
qed

lemma save_last_visit_ok:
  assumes "\<forall>item \<in> set items. snd item \<noteq> None"
    and "distinct (map fst items)"
    and "\<forall>k \<in> fst ` set items. py_str k \<notin> fst ` set acc"
  shows "save_last_visit tz items acc
           = Inr (acc @ map (\<lambda>(k, v). (py_str k, isoformat (attach_timezone tz (the v)))) items)"
  using assms
proof (induction items arbitrary: acc)
  case Nil
  then show ?case by simp
next
  case (Cons item items)
  obtain k d where item: "item = (k, Some d)"
    using Cons.prems(1) by (cases item) auto
  let ?str = "isoformat (attach_timezone tz d)"
  have fresh: "py_str k \<notin> fst ` set acc"
    using Cons.prems(3) item by simp
  have step: "save_last_visit tz (item # items) acc
                = save_last_visit tz items (acc @ [(py_str k, ?str)])"
    by (simp add: item attach_timezone_def update_fresh [OF fresh])
  have p1: "\<forall>item \<in> set items. snd item \<noteq> None"
    using Cons.prems(1) by simp
  have p2: "distinct (map fst items)"
    using Cons.prems(2) by simp
  have p3: "\<forall>k' \<in> fst ` set items. py_str k' \<notin> fst ` set (acc @ [(py_str k, ?str)])"
    using fresh_step [OF Cons.prems(2,3) py_str_inj, of ?str] item by simp
  show ?case
    unfolding step Cons.IH [OF p1 p2 p3] by (simp add: item)
qed

lemma save_visit_history_ok:
  assumes "distinct (map fst items)"
    and "\<forall>k \<in> fst ` set items. py_str k \<notin> fst ` set acc"
  shows "foldl (\<lambda>acc (k, v). AList.update (py_str k) v acc) acc items
           = acc @ map (\<lambda>(k, v). (py_str k, v)) items"
  using assms
proof (induction items arbitrary: acc)
  case Nil
  then show ?case by simp
next
  case (Cons item items)
  obtain k v where item: "item = (k, v)" by (cases item)
  have fresh: "py_str k \<notin> fst ` set acc"
    using Cons.prems(2) item by simp
  have step: "foldl (\<lambda>acc (k, v). AList.update (py_str k) v acc) acc (item # items)
                = foldl (\<lambda>acc (k, v). AList.update (py_str k) v acc) (acc @ [(py_str k, v)]) items"
    by (simp add: item update_fresh [OF fresh])
  have p2: "distinct (map fst items)"
    using Cons.prems(1) by simp
  have p3: "\<forall>k' \<in> fst ` set items. py_str k' \<notin> fst ` set (acc @ [(py_str k, v)])"
    using fresh_step [OF Cons.prems(1,2) py_str_inj, of v] item by simp
  show ?case
    unfolding step Cons.IH [OF p2 p3] by (simp add: item)
qed

lemma load_last_visit_ok:
  assumes "\<forall>item \<in> set kds. valid_datetime (snd item) \<and> tzinfo (snd item) \<noteq> None"
    and "distinct (map fst kds)"
    and "\<forall>k \<in> fst ` set kds. k \<notin> fst ` set acc"
  shows "load_last_visit tz (map (\<lambda>(k, d). (py_str k, isoformat d)) kds) acc
           = (acc @ map (\<lambda>(k, d). (k, Some d)) kds, True)"
  using assms
proof (induction kds arbitrary: acc)
  case Nil
  then show ?case by simp
next
  case (Cons item kds)
  obtain k d where item: "item = (k, d)" by (cases item)
  have d: "valid_datetime d" "tzinfo d \<noteq> None"
    using Cons.prems(1) item by auto
  have fresh: "k \<notin> fst ` set acc"
    using Cons.prems(3) item by simp
  have step: "load_last_visit tz (map (\<lambda>(k, d). (py_str k, isoformat d)) (item # kds)) acc
                = load_last_visit tz (map (\<lambda>(k, d). (py_str k, isoformat d)) kds)
                    (acc @ [(k, Some d)])"
    by (simp add: item fromisoformat_isoformat [OF d(1)] d(2) py_int_py_str
        update_fresh [OF fresh])
  have p1: "\<forall>item \<in> set kds. valid_datetime (snd item) \<and> tzinfo (snd item) \<noteq> None"
    using Cons.prems(1) by simp
  have p2: "distinct (map fst kds)"
    using Cons.prems(2) by simp
  have p3: "\<forall>k' \<in> fst ` set kds. k' \<notin> fst ` set (acc @ [(k, Some d)])"
    using fresh_step [where f = "\<lambda>k. k", OF Cons.prems(2,3), of "Some d"] item by simp
  show ?case
    unfolding step Cons.IH [OF p1 p2 p3] by (simp add: item)
qed

lemma load_visit_history_ok:
  assumes "distinct (map fst items)"
    and "\<forall>k \<in> fst ` set items. k \<notin> fst ` set acc"
  shows "load_visit_history (map (\<lambda>(k, v). (py_str k, v)) items) acc = Inr (acc @ items)"
  using assms
proof (induction items arbitrary: acc)
  case Nil
  then show ?case by simp
next
  case (Cons item items)
  obtain k v where item: "item = (k, v)" by (cases item)
  have fresh: "k \<notin> fst ` set acc"
    using Cons.prems(2) item by simp
  have step: "load_visit_history (map (\<lambda>(k, v). (py_str k, v)) (item # items)) acc
                = load_visit_history (map (\<lambda>(k, v). (py_str k, v)) items) (acc @ [(k, v)])"
    by (simp add: item py_int_py_str update_fresh [OF fresh])
  have p2: "distinct (map fst items)"
    using Cons.prems(1) by simp
  have p3: "\<forall>k' \<in> fst ` set items. k' \<notin> fst ` set (acc @ [(k, v)])"
    using fresh_step [where f = "\<lambda>k. k", OF Cons.prems(1,2), of v] item by simp
  show ?case
    unfolding step Cons.IH [OF p2 p3] by (simp add: item)
qed

lemma valid_attach:
  "valid_datetime d \<Longrightarrow> \<bar>tz\<bar> < 1440 \<Longrightarrow>
   valid_datetime (attach_timezone tz d) \<and> tzinfo (attach_timezone tz d) \<noteq> None"
  by (auto simp: valid_datetime_def attach_timezone_def split: option.splits)

text \<open>
  For a ledger whose last-visit entries are all timestamps, \<open>save_state\<close> succeeds, and
  \<open>load_state\<close> on the saved file, by any optimizer object, yields the same box ids with
  the same timestamps, each naive timestamp with the saving object's time zone attached, and
  the same visit-history lists.
\<close>

lemma save_load_roundtrip:
  assumes "distinct (map fst (last_visit s))"
    and "distinct (map fst (visit_history s))"
    and "\<forall>entry \<in> set (last_visit s). snd entry \<noteq> None \<and> valid_datetime (the (snd entry))"
    and "\<bar>timezone s\<bar> < 1440"
  shows "\<exists>file. save_state s = Inr file
           \<and> last_visit (load_state t (Some file))
               = map (\<lambda>(k, v). (k, map_option (attach_timezone (timezone s)) v)) (last_visit s)
           \<and> visit_history (load_state t (Some file)) = visit_history s"
proof -
  let ?tz = "timezone s"
  define kds where "kds = map (\<lambda>(k, v). (k, attach_timezone ?tz (the v))) (last_visit s)"
  have a1: "\<forall>item \<in> set (last_visit s). snd item \<noteq> None"
    using assms(3) by simp
  have m1: "map (\<lambda>(k, v). (py_str k, isoformat (attach_timezone ?tz (the v)))) (last_visit s)
              = map (\<lambda>(k, d). (py_str k, isoformat d)) kds"
    by (simp add: kds_def case_prod_unfold)
  have sv: "save_last_visit ?tz (last_visit s) []
              = Inr (map (\<lambda>(k, d). (py_str k, isoformat d)) kds)"
    using save_last_visit_ok [OF a1 assms(1), of "[]" ?tz] m1 by simp
  have vh: "foldl (\<lambda>acc (k, v). AList.update (py_str k) v acc) [] (visit_history s)
              = map (\<lambda>(k, v). (py_str k, v)) (visit_history s)"
    using save_visit_history_ok [OF assms(2), of "[]"] by simp
  have k1: "\<forall>item \<in> set kds. valid_datetime (snd item) \<and> tzinfo (snd item) \<noteq> None"
  proof
    fix item assume "item \<in> set kds"
    then obtain e where e: "e \<in> set (last_visit s)"
      and item: "item = (fst e, attach_timezone ?tz (the (snd e)))"
      by (auto simp: kds_def)
    have "valid_datetime (the (snd e))"
      using assms(3) e by blast
    from valid_attach [OF this assms(4)]
    show "valid_datetime (snd item) \<and> tzinfo (snd item) \<noteq> None"
      by (simp add: item)
  qed
  have k2: "distinct (map fst kds)"
    using assms(1) by (simp add: kds_def case_prod_unfold comp_def)
  have ld: "load_last_visit tz' (map (\<lambda>(k, d). (py_str k, isoformat d)) kds) []
              = (map (\<lambda>(k, d). (k, Some d)) kds, True)" for tz'
    using load_last_visit_ok [OF k1 k2, of "[]" tz'] by simp
  have lh: "load_visit_history (map (\<lambda>(k, v). (py_str k, v)) (visit_history s)) []
              = Inr (visit_history s)"
    using load_visit_history_ok [OF assms(2), of "[]"] by simp
  have same: "map (\<lambda>(k, d). (k, Some d)) kds
                = map (\<lambda>(k, v). (k, map_option (attach_timezone ?tz) v)) (last_visit s)"
    using a1 by (auto simp: kds_def)
  show ?thesis
    by (simp add: save_state_def sv vh load_state_def ld lh same)
qed

lemma save_load_roundtrip_example:
  "\<exists>file. save_state example_ledger = Inr file
      \<and> last_visit (load_state example_state (Some file))
          = [(2, Some visit_30_days_ago), (1, Some (naive_visit\<lparr>tzinfo := Some 34\<rparr>))]
      \<and> visit_history (load_state example_state (Some file)) = visit_history example_ledger"
proof -
  have a: "distinct (map fst (last_visit example_ledger))"
    and b: "distinct (map fst (visit_history example_ledger))"
    and c: "\<forall>entry \<in> set (last_visit example_ledger).
              snd entry \<noteq> None \<and> valid_datetime (the (snd entry))"
    and d: "\<bar>timezone example_ledger\<bar> < 1440"
    by (simp_all add: example_ledger_def example_state_def europe_zurich_def
        visit_30_days_ago_def naive_visit_def valid_datetime_def days_in_month_def is_leap_def)
  show ?thesis
    using save_load_roundtrip [OF a b c d, of example_state]
    by (simp add: example_ledger_def example_state_def europe_zurich_def attach_timezone_def
        visit_30_days_ago_def naive_visit_def)
qed

text \<open>
  Reading \<open>v.tzinfo\<close> of a \<open>None\<close> entry raises, whatever the other entries are.
\<close>

lemma save_last_visit_placeholder:
  "(k, None) \<in> set items \<Longrightarrow> save_last_visit tz items acc = Inl AttributeError"
proof (induction items arbitrary: acc)
  case Nil
  then show ?case by simp
next
  case (Cons item items)
  obtain k' v where item: "item = (k', v)" by (cases item)
  show ?case
  proof (cases v)
    case None
    then show ?thesis by (simp add: item)
  next
    case (Some d)
    then have "(k, None) \<in> set items"
      using Cons.prems item by auto
    from Cons.IH [OF this] show ?thesis
      by (simp add: item Some)
  qed
qed

text \<open>
  C9 (the code's behaviour on a ledger left by \<open>add_box\<close>). After a successful \<open>add_box\<close>
  of an id that has no ledger entry, the ledger holds the placeholder \<open>None\<close> for the new
  box, and \<open>save_state\<close> raises \<open>AttributeError\<close>: nothing is saved, so there is no round
  trip for this ledger state.
\<close>

theorem add_box_then_save_raises:
  assumes "add_box s nb = (True, s')" and "nb_n_boite nb = Some b"
    and "map_of (last_visit s) b = None"
  shows "save_state s' = Inl AttributeError"
proof -
  have "(b, None) \<in> set (last_visit s')"
    using add_box_ledger [OF assms] by (rule map_of_SomeD)
  then show ?thesis
    by (simp add: save_state_def save_last_visit_placeholder)
qed

theorem add_box_then_save_raises_witness:
  "save_state (snd (add_box example_state example_new_box)) = Inl AttributeError"
proof -
  have a: "add_box example_state example_new_box
             = (True, snd (add_box example_state example_new_box))"
    by (rule pair_fst [OF add_box_example])
  have b: "nb_n_boite example_new_box = Some 3"
    by (simp add: example_new_box_def)
  have c: "map_of (last_visit example_state) 3 = None"
    by (simp add: example_state_def)
  show ?thesis
    using add_box_then_save_raises [OF a b c] by simp
qed

end
